theory Spec2Isabelle
  imports Complex_Main
begin

section \<open>Values shared by the services\<close>

text \<open>
  The backend is Python.  A computation that the source wraps in \<open>try/except\<close> either
  raises or returns; the model keeps the two apart so that every \<open>except\<close> branch of the
  source is a branch of the model.  Python floats are modelled as reals: the rounding of
  IEEE arithmetic is not part of the model.
\<close>

datatype 'a outcome = Raises | Returns 'a

text \<open>\<open>datetime.time\<close>: naive times compare field by field, hour first.\<close>

record time_of_day =
  tm_hour :: nat
  tm_minute :: nat
  tm_second :: nat
  tm_microsecond :: nat

text \<open>
  \<open>datetime.datetime\<close>: the calendar day, kept as the string that
  \<open>.date().strftime("%Y-%m-%d")\<close> gives, and the time of day that \<open>.time()\<close> gives.
\<close>

record datetime =
  dt_date :: string
  dt_time :: time_of_day

definition mk_time :: "nat \<Rightarrow> nat \<Rightarrow> time_of_day" where
  "mk_time h m = \<lparr>tm_hour = h, tm_minute = m, tm_second = 0, tm_microsecond = 0\<rparr>"

definition time_gt :: "time_of_day \<Rightarrow> time_of_day \<Rightarrow> bool" where
  "time_gt a b \<longleftrightarrow>
     tm_hour a > tm_hour b \<or>
     (tm_hour a = tm_hour b \<and>
       (tm_minute a > tm_minute b \<or>
        (tm_minute a = tm_minute b \<and>
          (tm_second a > tm_second b \<or>
           (tm_second a = tm_second b \<and> tm_microsecond a > tm_microsecond b)))))"

text \<open>The two clocks the handlers read: \<open>datetime.now()\<close> and \<open>datetime.utcnow()\<close>.\<close>

record clock =
  ck_now :: datetime
  ck_utcnow :: datetime

text \<open>Truth value of an optional string: \<open>None\<close> and \<open>""\<close> are false.\<close>

definition truthy :: "string option \<Rightarrow> bool" where
  "truthy v = (case v of None \<Rightarrow> False | Some s \<Rightarrow> s \<noteq> [])"

text \<open>\<open>str.lower()\<close> on ASCII letters.\<close>

definition lower_char :: "char \<Rightarrow> char" where
  "lower_char c =
     (case map_of (zip ''ABCDEFGHIJKLMNOPQRSTUVWXYZ'' ''abcdefghijklmnopqrstuvwxyz'') c of
        None \<Rightarrow> c
      | Some d \<Rightarrow> d)"

definition lower :: "string \<Rightarrow> string" where
  "lower s = map lower_char s"

section \<open>What the vision libraries report about one image\<close>

text \<open>
  The services hand the image bytes to OpenCV, MediaPipe, NumPy and the embedding network.
  The model takes what those calls report as the content of the image: whether
  \<open>cv2.imdecode\<close> gives an array, the landmark statistics of the face mesh, the Laplacian
  and spectrum statistics, the colour statistics, the embedding string, and the similarity
  of the embedding to a stored encoding.

  \<^item> \<open>img_decode\<close>: \<open>Raises\<close> when decoding (or the colour conversion that follows it)
    raises, \<open>Returns False\<close> when \<open>cv2.imdecode\<close> gives \<open>None\<close>, \<open>Returns True\<close> when it
    gives an array.
  \<^item> \<open>img_mesh\<close>: \<open>Raises\<close> when the face mesh raises, \<open>Returns None\<close> when
    \<open>multi_face_landmarks\<close> is empty, else the standard deviation of the landmarks' depth
    and the two eye heights \<open>|eye[1].y - eye[5].y|\<close>.
  \<^item> \<open>img_texture\<close>: the variance of the Laplacian and the ratio
    \<open>std(magnitude) / mean(magnitude)\<close> of the spectrum; \<open>img_color\<close>: the share of
    skin-hue pixels and the standard deviation of the saturation.
  \<^item> \<open>img_embedding\<close>: the JSON string of the embedding of the largest face, \<open>None\<close>
    when no face is found or the network raises; \<open>img_similarity\<close>: what
    \<open>_calculate_similarity\<close> gives against a stored encoding, \<open>None\<close> when the stored
    encoding cannot be parsed.  The two \<open>deepface\<close> fields are the same for the DeepFace
    path of \<open>FaceRecognitionService\<close>, taken when the Siamese network is switched off.
\<close>

record landmarks =
  lm_z_std :: real
  lm_left_height :: real
  lm_right_height :: real

record texture_stats =
  tx_variance :: real
  tx_pattern_ratio :: real

record color_stats =
  cl_skin_ratio :: real
  cl_sat_std :: real

record image =
  img_decode :: "bool outcome"
  img_mesh :: "landmarks option outcome"
  img_texture :: "texture_stats outcome"
  img_color :: "color_stats outcome"
  img_embedding :: "string option"
  img_similarity :: "string \<Rightarrow> real option"
  img_deepface_embedding :: "string option"
  img_deepface_similarity :: "string \<Rightarrow> real option"

section \<open>\<open>services/siamese_network.py\<close>\<close>

record siamese_service =
  sn_threshold :: real
  sn_liveness_threshold :: real
  sn_face_mesh :: bool

text \<open>
  \<open>SiameseNetworkService.__init__\<close>: the two thresholds come from the environment
  (\<open>SIAMESE_THRESHOLD\<close>, \<open>LIVENESS_THRESHOLD\<close>), with defaults 0.6 and 0.35.  The second
  argument says whether the MediaPipe face mesh could be created.
\<close>

definition getenv_float :: "(string \<rightharpoonup> real) \<Rightarrow> string \<Rightarrow> real \<Rightarrow> real" where
  "getenv_float env k d = (case env k of None \<Rightarrow> d | Some v \<Rightarrow> v)"

definition siamese_init :: "(string \<rightharpoonup> real) \<Rightarrow> bool \<Rightarrow> siamese_service" where
  "siamese_init env mesh_ok =
     \<lparr>sn_threshold = getenv_float env ''SIAMESE_THRESHOLD'' 0.6,
      sn_liveness_threshold = getenv_float env ''LIVENESS_THRESHOLD'' 0.35,
      sn_face_mesh = mesh_ok\<rparr>"

definition siamese_encode_face :: "image \<Rightarrow> string option" where
  "siamese_encode_face img =
     (case img_decode img of
        Returns True \<Rightarrow> img_embedding img
      | _ \<Rightarrow> None)"

definition siamese_verify_face :: "siamese_service \<Rightarrow> image \<Rightarrow> string \<Rightarrow> bool \<times> real" where
  "siamese_verify_face sn img stored_encoding =
     (let new_encoding = siamese_encode_face img in
      if \<not> truthy new_encoding then (False, 0)
      else (case img_similarity img stored_encoding of
              None \<Rightarrow> (False, 0)
            | Some similarity \<Rightarrow> (similarity \<ge> sn_threshold sn, similarity)))"

definition calculate_eye_aspect_ratio :: "real \<Rightarrow> real \<Rightarrow> real" where
  "calculate_eye_aspect_ratio left_height right_height =
     (let avg_height = (left_height + right_height) / 2 in
      if 0.15 < avg_height \<and> avg_height < 0.35 then 1 else 0.5)"

definition check_face_mesh_liveness :: "siamese_service \<Rightarrow> image \<Rightarrow> real" where
  "check_face_mesh_liveness sn img =
     (if \<not> sn_face_mesh sn then 1
      else (case img_mesh img of
              Raises \<Rightarrow> 1
            | Returns None \<Rightarrow> 0
            | Returns (Some lm) \<Rightarrow>
                (let z_std = lm_z_std lm;
                     depth_score = (if z_std > 0.02 then min (z_std * 20) 1 else z_std * 10);
                     eye_score = calculate_eye_aspect_ratio (lm_left_height lm) (lm_right_height lm)
                 in depth_score * 0.7 + eye_score * 0.3)))"

definition check_texture_liveness :: "image \<Rightarrow> real" where
  "check_texture_liveness img =
     (case img_texture img of
        Raises \<Rightarrow> 1
      | Returns t \<Rightarrow>
          (let variance = tx_variance t;
               texture_score = (if variance > 100 then min (variance / 500) 1 else variance / 200);
               pattern_score = max 0 (min 1 (1 - tx_pattern_ratio t))
           in texture_score * 0.7 + pattern_score * 0.3))"

definition check_color_distribution :: "image \<Rightarrow> real" where
  "check_color_distribution img =
     (case img_color img of
        Raises \<Rightarrow> 1
      | Returns c \<Rightarrow>
          (let sat_score = min (cl_sat_std c / 50) 1
           in cl_skin_ratio c * 0.6 + sat_score * 0.4))"

definition siamese_check_liveness :: "siamese_service \<Rightarrow> image \<Rightarrow> bool \<times> real" where
  "siamese_check_liveness sn img =
     (case img_decode img of
        Raises \<Rightarrow> (True, 1)
      | Returns False \<Rightarrow> (False, 0)
      | Returns True \<Rightarrow>
          (let mesh_score = check_face_mesh_liveness sn img;
               texture_score = check_texture_liveness img;
               color_score = check_color_distribution img;
               liveness_score = mesh_score * 0.5 + texture_score * 0.3 + color_score * 0.2;
               is_live = (liveness_score \<ge> sn_liveness_threshold sn)
           in (is_live, liveness_score)))"

definition siamese_verify_face_with_liveness ::
  "siamese_service \<Rightarrow> image \<Rightarrow> string \<Rightarrow> bool \<Rightarrow> bool \<times> real \<times> bool" where
  "siamese_verify_face_with_liveness sn img stored_encoding check =
     (let (is_live, liveness_score) = (if check then siamese_check_liveness sn img else (True, 1)) in
      if check \<and> \<not> is_live then (False, 0, False)
      else (let (is_match, confidence) = siamese_verify_face sn img stored_encoding
            in (is_match, confidence, is_live)))"

section \<open>\<open>services/face_recognition_service.py\<close>\<close>

record face_service =
  fs_use_siamese :: bool
  fs_enable_liveness :: bool
  fs_siamese :: siamese_service

definition encode_face :: "face_service \<Rightarrow> image \<Rightarrow> string option" where
  "encode_face fs img =
     (if fs_use_siamese fs then siamese_encode_face img
      else (case img_decode img of
              Returns True \<Rightarrow> img_deepface_embedding img
            | _ \<Rightarrow> None))"

definition verify_face :: "face_service \<Rightarrow> image \<Rightarrow> string \<Rightarrow> real \<Rightarrow> bool \<times> real" where
  "verify_face fs img stored_encoding threshold =
     (if fs_use_siamese fs then siamese_verify_face (fs_siamese fs) img stored_encoding
      else (let new_encoding = encode_face fs img in
            if \<not> truthy new_encoding then (False, 0)
            else (case img_deepface_similarity img stored_encoding of
                    None \<Rightarrow> (False, 0)
                  | Some similarity \<Rightarrow> (similarity \<ge> threshold, similarity))))"

definition verify_face_with_liveness ::
  "face_service \<Rightarrow> image \<Rightarrow> string \<Rightarrow> bool \<times> real \<times> bool" where
  "verify_face_with_liveness fs img stored_encoding =
     (if fs_use_siamese fs \<and> fs_enable_liveness fs
      then siamese_verify_face_with_liveness (fs_siamese fs) img stored_encoding True
      else (let (is_match, confidence) = verify_face fs img stored_encoding 0.5
            in (is_match, confidence, True)))"

definition check_liveness :: "face_service \<Rightarrow> image \<Rightarrow> bool \<times> real" where
  "check_liveness fs img =
     (if fs_use_siamese fs \<and> fs_enable_liveness fs
      then siamese_check_liveness (fs_siamese fs) img
      else (True, 1))"

section \<open>\<open>database.py\<close>: the tables\<close>

text \<open>
  The columns the handlers read or write.  Contact fields of a student, the block-chain
  columns and \<open>created_at\<close> play no part in the handlers modelled here and are left out.
  A table is the list of its rows in the order in which \<open>.first()\<close> and \<open>.all()\<close> see them.
\<close>

record student =
  st_register_number :: string
  st_name :: string
  st_department :: string
  st_face_encoding :: "string option"
  st_is_active :: bool

record attendance_record =
  ar_id :: nat
  ar_student_register_number :: string
  ar_date :: string
  ar_time :: datetime
  ar_status :: string
  ar_verification_method :: string
  ar_face_confidence :: real
  ar_qr_verified :: bool
  ar_verification_status :: string
  ar_verified_by :: "string option"
  ar_verification_notes :: "string option"
  ar_notification_sent :: bool
  ar_updated_at :: datetime

record pending_verification =
  pv_id :: nat
  pv_attendance_record_id :: nat
  pv_student_register_number :: string
  pv_student_name :: string
  pv_date :: string
  pv_time :: datetime
  pv_face_confidence :: real
  pv_manual_register_number :: "string option"
  pv_status :: string
  pv_reviewed_by :: "string option"
  pv_review_notes :: "string option"
  pv_reviewed_at :: "datetime option"

record database =
  db_students :: "student list"
  db_attendance :: "attendance_record list"
  db_pending :: "pending_verification list"

record user =
  us_username :: string
  us_role :: string

text \<open>Queries: \<open>.filter(...).first()\<close> is the first row that satisfies the filter.\<close>

definition find_student :: "database \<Rightarrow> string \<Rightarrow> student option" where
  "find_student db reg = find (\<lambda>s. st_register_number s = reg) (db_students db)"

definition find_active_student :: "database \<Rightarrow> string \<Rightarrow> student option" where
  "find_active_student db reg =
     find (\<lambda>s. st_register_number s = reg \<and> st_is_active s) (db_students db)"

definition existing_attendance :: "database \<Rightarrow> string \<Rightarrow> string \<Rightarrow> attendance_record option" where
  "existing_attendance db reg d =
     find (\<lambda>r. ar_student_register_number r = reg \<and> ar_date r = d) (db_attendance db)"

text \<open>The primary key of a new row: one more than the largest key in the table.\<close>

definition next_id :: "nat list \<Rightarrow> nat" where
  "next_id ids = Suc (fold max ids 0)"

text \<open>
  Assigning to an attribute of the object that \<open>.first()\<close> returned and committing
  rewrites that one row.
\<close>

fun update_first :: "('a \<Rightarrow> bool) \<Rightarrow> ('a \<Rightarrow> 'a) \<Rightarrow> 'a list \<Rightarrow> 'a list" where
  "update_first P f [] = []"
| "update_first P f (x # xs) = (if P x then f x # xs else x # update_first P f xs)"

subsection \<open>\<open>FaceRecognitionService.find_matching_student\<close>\<close>

text \<open>
  \<open>find_matching_student\<close>: the loop over the active students that have an encoding, with
  the loop state \<open>(best_match, highest_confidence)\<close>, started at \<open>(None, 0.0)\<close>.
  \<open>candidate_result\<close> is the call \<open>self.verify_face(image_data, student.face_encoding)\<close> of
  the loop body; the query has already dropped the students without an encoding.
\<close>

definition candidate_result :: "face_service \<Rightarrow> image \<Rightarrow> student \<Rightarrow> bool \<times> real" where
  "candidate_result fs img s =
     (case st_face_encoding s of
        None \<Rightarrow> (False, 0)
      | Some enc \<Rightarrow> verify_face fs img enc 0.5)"

definition fm_step :: "face_service \<Rightarrow> image \<Rightarrow> student \<Rightarrow> student option \<times> real \<Rightarrow> student option \<times> real" where
  "fm_step fs img s acc =
     (let (is_match, confidence) = candidate_result fs img s in
      if is_match \<and> confidence > snd acc then (Some s, confidence) else acc)"

definition enrolled_students :: "database \<Rightarrow> student list" where
  "enrolled_students db =
     filter (\<lambda>s. st_is_active s \<and> st_face_encoding s \<noteq> None) (db_students db)"

definition find_matching_student :: "face_service \<Rightarrow> image \<Rightarrow> database \<Rightarrow> (student \<times> real) option" where
  "find_matching_student fs img db =
     (let students = enrolled_students db;
          (best_match, highest_confidence) = fold (fm_step fs img) students (None, 0)
      in case best_match of
           None \<Rightarrow> None
         | Some s \<Rightarrow> Some (s, highest_confidence))"

section \<open>\<open>services/qr_service.py\<close>: looking the decoded token up\<close>

text \<open>
  The decoder cascade itself is not modelled: a request carries what
  \<open>decode_qr_from_image\<close> returns for it, a dictionary or \<open>None\<close>.
\<close>

type_synonym qr_dict = "(string \<times> string) list"

record qr_data =
  qd_truthy :: bool
  qd_decoded :: "qr_dict option"

definition verify_student_qr :: "qr_dict \<Rightarrow> database \<Rightarrow> student option" where
  "verify_student_qr qr db =
     (if qr = [] then None
      else (let register_number =
                  (if truthy (map_of qr ''register_number'') then map_of qr ''register_number''
                   else map_of qr ''data'')
            in if \<not> truthy register_number then None
               else (case register_number of
                       None \<Rightarrow> None
                     | Some reg \<Rightarrow> find_active_student db reg)))"

section \<open>\<open>services/attendance_service.py\<close>\<close>

text \<open>
  What a handler returns: the keys of the dictionary that the claims speak about.
  A key that is missing, or present with value \<open>None\<close>, is \<open>None\<close> here.
\<close>

record response =
  rs_case :: "string option"
  rs_status :: string
  rs_attendance_status :: "string option"
  rs_register_number :: "string option"
  rs_verification_method :: "string option"
  rs_face_confidence :: "real option"
  rs_notes :: "string option"
  rs_message :: string

definition error_response :: "string \<Rightarrow> response" where
  "error_response msg =
     \<lparr>rs_case = None, rs_status = ''error'', rs_attendance_status = None,
      rs_register_number = None, rs_verification_method = None, rs_face_confidence = None,
      rs_notes = None, rs_message = msg\<rparr>"

definition duplicate_response :: "attendance_record \<Rightarrow> response" where
  "duplicate_response existing =
     error_response (''Attendance already marked for today: '' @ ar_status existing)"

definition success_response :: "student \<Rightarrow> string \<Rightarrow> string \<Rightarrow> real \<Rightarrow> string \<Rightarrow> response" where
  "success_response s attendance_status method face_confidence msg =
     \<lparr>rs_case = None, rs_status = ''success'', rs_attendance_status = Some attendance_status,
      rs_register_number = Some (st_register_number s), rs_verification_method = Some method,
      rs_face_confidence = Some face_confidence, rs_notes = None, rs_message = msg\<rparr>"

record attendance_service =
  as_cutoff_time :: time_of_day
  as_face_service :: face_service

text \<open>
  A new row of \<open>attendance_records\<close> as the handlers build it; \<open>verified_by\<close> and
  \<open>verification_notes\<close> start empty unless given, \<open>updated_at\<close> takes its default.
\<close>

definition new_attendance ::
  "database \<Rightarrow> clock \<Rightarrow> string \<Rightarrow> string \<Rightarrow> string \<Rightarrow> real \<Rightarrow> bool \<Rightarrow> string \<Rightarrow> attendance_record" where
  "new_attendance db ck reg st method conf qr vstatus =
     \<lparr>ar_id = next_id (map ar_id (db_attendance db)),
      ar_student_register_number = reg,
      ar_date = dt_date (ck_now ck),
      ar_time = ck_now ck,
      ar_status = st,
      ar_verification_method = method,
      ar_face_confidence = conf,
      ar_qr_verified = qr,
      ar_verification_status = vstatus,
      ar_verified_by = None,
      ar_verification_notes = None,
      ar_notification_sent = False,
      ar_updated_at = ck_utcnow ck\<rparr>"

definition add_attendance :: "attendance_record \<Rightarrow> database \<Rightarrow> database" where
  "add_attendance r db = db\<lparr>db_attendance := db_attendance db @ [r]\<rparr>"

text \<open>
  After a commit the handlers try to send a notification and, when the call reports
  success, set \<open>notification_sent\<close> on the row just written.  The notifier is an external
  collaborator: its answer is the argument \<open>notified\<close>.
\<close>

definition mark_notified :: "bool \<Rightarrow> clock \<Rightarrow> nat \<Rightarrow> database \<Rightarrow> database" where
  "mark_notified notified ck rid db =
     (if notified
      then db\<lparr>db_attendance :=
             update_first (\<lambda>r. ar_id r = rid)
               (\<lambda>r. r\<lparr>ar_notification_sent := True, ar_updated_at := ck_utcnow ck\<rparr>)
               (db_attendance db)\<rparr>
      else db)"

text \<open>
  The block that both token and forgot-id handlers share: \<open>face_match\<close> and
  \<open>face_confidence\<close> start at \<open>False\<close> and \<open>0.0\<close>, and \<open>verify_face\<close> is called only
  when the student has a stored encoding.
\<close>

definition verify_stored_face :: "face_service \<Rightarrow> image \<Rightarrow> student \<Rightarrow> bool \<times> real" where
  "verify_stored_face fs img s =
     (case st_face_encoding s of
        None \<Rightarrow> (False, 0)
      | Some enc \<Rightarrow> if enc = [] then (False, 0) else verify_face fs img enc 0.5)"

definition handle_face_qr_attendance ::
  "attendance_service \<Rightarrow> image \<Rightarrow> qr_data \<Rightarrow> clock \<Rightarrow> bool \<Rightarrow> database \<Rightarrow> response \<times> database" where
  "handle_face_qr_attendance svc img qr ck notified db =
     (case qd_decoded qr of
        None \<Rightarrow> (error_response ''Invalid or unreadable QR code'', db)
      | Some qr_decoded \<Rightarrow>
          if qr_decoded = [] then (error_response ''Invalid or unreadable QR code'', db)
          else (case verify_student_qr qr_decoded db of
             None \<Rightarrow> (error_response ''Student not found or inactive'', db)
           | Some s \<Rightarrow>
              (case existing_attendance db (st_register_number s) (dt_date (ck_now ck)) of
                 Some existing \<Rightarrow> (duplicate_response existing, db)
               | None \<Rightarrow>
                  (let (face_match, face_confidence) =
                         verify_stored_face (as_face_service svc) img s
                   in if \<not> face_match
                      then (error_response
                              ''Face verification failed. Please ensure proper lighting and positioning.'', db)
                      else
                        (let is_late = time_gt (dt_time (ck_now ck)) (as_cutoff_time svc);
                             attendance_status = (if is_late then ''Late'' else ''Present'');
                             rec = new_attendance db ck (st_register_number s) attendance_status
                                     ''face_qr'' face_confidence True ''verified'';
                             db1 = add_attendance rec db;
                             db2 = (if attendance_status = ''Late''
                                    then mark_notified notified ck (ar_id rec) db1 else db1)
                         in (success_response s attendance_status ''face_qr'' face_confidence
                               (''Attendance marked as '' @ attendance_status), db2))))))"

definition handle_forgot_id_attendance ::
  "attendance_service \<Rightarrow> image \<Rightarrow> string \<Rightarrow> clock \<Rightarrow> bool \<Rightarrow> database \<Rightarrow> response \<times> database" where
  "handle_forgot_id_attendance svc img register_number ck notified db =
     (case find_active_student db register_number of
        None \<Rightarrow> (error_response ''Student not found with provided register number'', db)
      | Some s \<Rightarrow>
          (case existing_attendance db (st_register_number s) (dt_date (ck_now ck)) of
             Some existing \<Rightarrow> (duplicate_response existing, db)
           | None \<Rightarrow>
              (let (face_match, face_confidence) =
                     verify_stored_face (as_face_service svc) img s
               in if \<not> face_match
                  then (error_response
                          ''Face verification failed. Identity could not be confirmed.'', db)
                  else
                    (let rec = new_attendance db ck (st_register_number s) ''Pending''
                                 ''face_only'' face_confidence False ''pending'';
                         db1 = add_attendance rec db;
                         db2 = mark_notified notified ck (ar_id rec) db1
                     in (success_response s ''Pending'' ''face_only'' face_confidence
                           ''Attendance marked as Pending. Requires department verification.'',
                         db2)))))"

definition handle_face_only_attendance ::
  "attendance_service \<Rightarrow> image \<Rightarrow> clock \<Rightarrow> bool \<Rightarrow> database \<Rightarrow> response \<times> database" where
  "handle_face_only_attendance svc img ck notified db =
     (case find_matching_student (as_face_service svc) img db of
        None \<Rightarrow>
          (error_response
             ''No matching student found. Please provide register number or valid ID card.'', db)
      | Some (s, face_confidence) \<Rightarrow>
          (case existing_attendance db (st_register_number s) (dt_date (ck_now ck)) of
             Some existing \<Rightarrow> (duplicate_response existing, db)
           | None \<Rightarrow>
              (let rec = new_attendance db ck (st_register_number s) ''Pending''
                           ''face_only'' face_confidence False ''pending'';
                   db1 = add_attendance rec db;
                   db2 = mark_notified notified ck (ar_id rec) db1
               in (success_response s ''Pending'' ''face_only'' face_confidence
                     ''Student identified by face. Attendance pending verification.'', db2))))"

text \<open>
  \<open>mark_attendance\<close> chooses the handler: a token when one is given, else a register
  number typed in, else the face alone.
\<close>

definition mark_attendance ::
  "attendance_service \<Rightarrow> image \<Rightarrow> qr_data option \<Rightarrow> string option \<Rightarrow> clock \<Rightarrow> bool \<Rightarrow> database
     \<Rightarrow> response \<times> database" where
  "mark_attendance svc img qr manual_register_number ck notified db =
     (let without_token =
            (case manual_register_number of
               None \<Rightarrow> handle_face_only_attendance svc img ck notified db
             | Some reg \<Rightarrow>
                 if reg \<noteq> [] then handle_forgot_id_attendance svc img reg ck notified db
                 else handle_face_only_attendance svc img ck notified db)
      in case qr of
           None \<Rightarrow> without_token
         | Some q \<Rightarrow>
             if qd_truthy q then handle_face_qr_attendance svc img q ck notified db
             else without_token)"

text \<open>
  \<open>AttendanceService.verify_pending_attendance\<close>: only a row whose
  \<open>verification_status\<close> is still \<open>pending\<close> is found.  The late/present split of an
  approval reads the time stored in the row; the time of the review goes to \<open>updated_at\<close>.
  (The message for an unknown action is quoted in the source; the quotes are dropped here.)
\<close>

definition verification_response :: "string \<Rightarrow> string \<Rightarrow> response" where
  "verification_response attendance_status msg =
     \<lparr>rs_case = None, rs_status = ''success'', rs_attendance_status = Some attendance_status,
      rs_register_number = None, rs_verification_method = None,
      rs_face_confidence = None, rs_notes = None, rs_message = msg\<rparr>"

definition verify_pending_attendance ::
  "attendance_service \<Rightarrow> nat \<Rightarrow> string \<Rightarrow> string \<Rightarrow> string option \<Rightarrow> clock \<Rightarrow> database
     \<Rightarrow> response \<times> database" where
  "verify_pending_attendance svc attendance_id action verifier_username notes ck db =
     (let is_pending = (\<lambda>r. ar_id r = attendance_id \<and> ar_verification_status r = ''pending'') in
      case find is_pending (db_attendance db) of
        None \<Rightarrow> (error_response ''Pending attendance record not found'', db)
      | Some attendance \<Rightarrow>
          if lower action = ''approve'' then
            (let is_late = time_gt (dt_time (ar_time attendance)) (as_cutoff_time svc);
                 st = (if is_late then ''Late'' else ''Present'');
                 upd = (\<lambda>r. r\<lparr>ar_status := st, ar_verification_status := ''verified'',
                              ar_verified_by := Some verifier_username,
                              ar_verification_notes := notes,
                              ar_updated_at := ck_utcnow ck\<rparr>)
             in (verification_response st (''Attendance approved and marked as '' @ st),
                 db\<lparr>db_attendance := update_first is_pending upd (db_attendance db)\<rparr>))
          else if lower action = ''reject'' then
            (let upd = (\<lambda>r. r\<lparr>ar_verification_status := ''rejected'',
                              ar_verified_by := Some verifier_username,
                              ar_verification_notes := notes,
                              ar_updated_at := ck_utcnow ck\<rparr>)
             in (verification_response (ar_status attendance) ''Attendance rejected'',
                 db\<lparr>db_attendance := update_first is_pending upd (db_attendance db)\<rparr>))
          else (error_response ''Invalid action. Use approve or reject'', db))"

section \<open>\<open>main.py\<close>: the endpoints\<close>

text \<open>
  An endpoint either returns a dictionary or raises \<open>HTTPException\<close> with a status code.
  Inside a handler an exception is one of the two kinds below; \<open>HTTPException\<close> is an
  \<open>Exception\<close>, so a handler whose only clause is \<open>except Exception\<close> turns every one of
  them into status 500 after \<open>db.rollback()\<close>.
\<close>

datatype http_exception = HTTPException nat

datatype py_exception = Http http_exception | AttributeError string

definition case_b_response :: response where
  "case_b_response =
     \<lparr>rs_case = Some ''B'', rs_status = ''error'', rs_attendance_status = None,
      rs_register_number = None, rs_verification_method = None, rs_face_confidence = None,
      rs_notes = None, rs_message = ''Face and ID not match. Please retry.''\<rparr>"

text \<open>
  Lines 1090 to 1145 of \<open>mark_attendance_verified\<close>: verify the face against the stored
  encoding, or, when the student has none, store the encoding of this image and accept.
  Returns \<open>face_match\<close>, \<open>face_confidence\<close> and the database after the block.  The value
  \<open>is_live\<close> is only logged.
\<close>

definition verify_or_register_face ::
  "face_service option \<Rightarrow> image \<Rightarrow> string \<Rightarrow> student \<Rightarrow> database \<Rightarrow> bool \<times> real \<times> database" where
  "verify_or_register_face face_service img id_register_number s db =
     (case (if truthy (st_face_encoding s) then face_service else None) of
        Some fs \<Rightarrow>
          (case st_face_encoding s of
             None \<Rightarrow> (False, 0, db)
           | Some enc \<Rightarrow>
               (let (face_match, face_confidence, is_live) = verify_face_with_liveness fs img enc
                in (face_match, face_confidence, db)))
      | None \<Rightarrow>
          (case face_service of
             None \<Rightarrow> (False, 0, db)
           | Some fs \<Rightarrow>
               (let face_encoding = encode_face fs img in
                if truthy face_encoding
                then (True, 1,
                      db\<lparr>db_students :=
                           update_first
                             (\<lambda>t. st_register_number t = id_register_number \<and> st_is_active t)
                             (\<lambda>t. t\<lparr>st_face_encoding := face_encoding\<rparr>)
                             (db_students db)\<rparr>)
                else (False, 0, db))))"

definition mark_attendance_verified ::
  "face_service option \<Rightarrow> image \<Rightarrow> string \<Rightarrow> clock \<Rightarrow> bool \<Rightarrow> database \<Rightarrow> response \<times> database" where
  "mark_attendance_verified face_service img id_register_number ck notified db =
     (let cutoff_time = mk_time 8 45 in
      case find_active_student db id_register_number of
        None \<Rightarrow> (case_b_response, db)
      | Some s \<Rightarrow>
          (let (face_match, face_confidence, db1) =
                 verify_or_register_face face_service img id_register_number s db
           in case existing_attendance db1 (st_register_number s) (dt_date (ck_now ck)) of
                Some existing \<Rightarrow> (duplicate_response existing, db1)
              | None \<Rightarrow>
                  if face_match then
                    (let is_late = time_gt (dt_time (ck_now ck)) cutoff_time in
                     if is_late then
                       (let rec = new_attendance db1 ck (st_register_number s) ''Late''
                                    ''face_id'' face_confidence True ''verified'';
                            db2 = mark_notified notified ck (ar_id rec) (add_attendance rec db1)
                        in ((success_response s ''Late'' ''face_id'' face_confidence
                               ''Late entry recorded. Notification sent to HOD and Parents.'')
                              \<lparr>rs_case := Some ''D''\<rparr>, db2))
                     else
                       (let rec = new_attendance db1 ck (st_register_number s) ''Present''
                                    ''face_id'' face_confidence True ''verified''
                        in ((success_response s ''Present'' ''face_id'' face_confidence
                               ''Attendance recorded successfully.'')
                              \<lparr>rs_case := Some ''A''\<rparr>, add_attendance rec db1)))
                  else (case_b_response, db1)))"

text \<open>
  \<open>identify_student_from_face\<close>: the same search as \<open>find_matching_student\<close>, written
  out in the endpoint, with \<open>verify_face_with_liveness\<close> in the loop body, a candidate
  skipped when the image is not live, and the best candidate accepted above 0.5.  The
  answer is kept as the student and the confidence, or \<open>None\<close> for \<open>identified: False\<close>.
\<close>

definition identify_step :: "face_service \<Rightarrow> image \<Rightarrow> student \<Rightarrow> student option \<times> real \<Rightarrow> student option \<times> real" where
  "identify_step fs img s acc =
     (case st_face_encoding s of
        None \<Rightarrow> acc
      | Some enc \<Rightarrow>
          (let (is_match, confidence, is_live) = verify_face_with_liveness fs img enc in
           if \<not> is_live then acc
           else if is_match \<and> confidence > snd acc then (Some s, confidence)
           else acc))"

definition identify_student_from_face ::
  "face_service option \<Rightarrow> image \<Rightarrow> database \<Rightarrow> (student \<times> real) option" where
  "identify_student_from_face face_service img db =
     (case face_service of
        None \<Rightarrow> None
      | Some fs \<Rightarrow>
          (let students = enrolled_students db;
               (best_match, best_confidence) = fold (identify_step fs img) students (None, 0)
           in case best_match of
                None \<Rightarrow> None
              | Some s \<Rightarrow> if best_confidence > 0.5 then Some (s, best_confidence) else None))"

text \<open>
  \<open>create_manual_pending_verification\<close>: the operator types the register number; the
  client sends along the register number that face identification gave, or the empty
  string.  This handler re-raises \<open>HTTPException\<close> unchanged.
\<close>

definition manual_verification_notes :: "string \<Rightarrow> string \<Rightarrow> string \<Rightarrow> string" where
  "manual_verification_notes username manual_register_number identified_register_number =
     ''Manual Case C: Forgot ID card. Entered by '' @ username @ ''.'' @
     (if identified_register_number \<noteq> [] then
        (if identified_register_number = manual_register_number
         then '' Face identification confirmed (matched: '' @ identified_register_number @ '').''
         else '' WARNING: Face identified as '' @ identified_register_number @
              '' but manually entered '' @ manual_register_number @ ''.'')
      else '' Face could not be automatically identified.'')"

definition pending_verification_response :: "student \<Rightarrow> string \<Rightarrow> response" where
  "pending_verification_response s verification_notes =
     \<lparr>rs_case = Some ''C'', rs_status = ''pending_verification'',
      rs_attendance_status = None,
      rs_register_number = Some (st_register_number s),
      rs_verification_method = None, rs_face_confidence = None,
      rs_notes = Some verification_notes,
      rs_message = ''Forgot ID case submitted for manual verification''\<rparr>"

definition create_manual_pending_verification ::
  "user \<Rightarrow> string \<Rightarrow> string \<Rightarrow> clock \<Rightarrow> database \<Rightarrow> (http_exception + response) \<times> database" where
  "create_manual_pending_verification current_user manual_register_number
       identified_register_number ck db =
     (case find_student db manual_register_number of
        None \<Rightarrow> (Inl (HTTPException 404), db)
      | Some s \<Rightarrow>
          (let verification_notes =
                 manual_verification_notes (us_username current_user) manual_register_number
                   identified_register_number;
               temp_attendance =
                 new_attendance db ck manual_register_number ''Pending'' ''forgot_id_manual''
                   0 False ''pending'';
               pending =
                 \<lparr>pv_id = next_id (map pv_id (db_pending db)),
                  pv_attendance_record_id = ar_id temp_attendance,
                  pv_student_register_number = manual_register_number,
                  pv_student_name = st_name s,
                  pv_date = dt_date (ck_now ck),
                  pv_time = ck_now ck,
                  pv_face_confidence = 0,
                  pv_manual_register_number =
                    (if identified_register_number \<noteq> manual_register_number
                     then Some manual_register_number else None),
                  pv_status = ''pending'',
                  pv_reviewed_by = None,
                  pv_review_notes = Some verification_notes,
                  pv_reviewed_at = None\<rparr>;
               db1 = (add_attendance temp_attendance db)
                       \<lparr>db_pending := db_pending db @ [pending]\<rparr>
           in (Inr (pending_verification_response s verification_notes), db1)))"

text \<open>
  \<open>verify_pending_attendance\<close> of \<open>main.py\<close> (route
  \<open>/verify_pending_attendance/{verification_id}\<close>).  The row is looked up by its id alone.
  The approve branch reads \<open>pending_verification.timestamp\<close>; the table
  \<open>pending_verifications\<close> of \<open>database.py\<close> has the columns \<open>time\<close> and \<open>created_at\<close> and
  no attribute of that name, so the read raises \<open>AttributeError\<close>.  The reject branch also
  assigns \<open>verified_by\<close>, \<open>verification_notes\<close> and \<open>resolved_at\<close>, which are not columns
  either: the assignments stay on the Python object and only \<open>status\<close> reaches the table.
\<close>

definition rejected_response :: "string \<Rightarrow> response" where
  "rejected_response notes =
     \<lparr>rs_case = None, rs_status = ''rejected'', rs_attendance_status = None,
      rs_register_number = None, rs_verification_method = None,
      rs_face_confidence = None, rs_notes = Some notes,
      rs_message = ''Pending verification rejected''\<rparr>"

definition verify_pending_attendance_try ::
  "user \<Rightarrow> nat \<Rightarrow> string \<Rightarrow> string option \<Rightarrow> string \<Rightarrow> database
     \<Rightarrow> py_exception + (response \<times> database)" where
  "verify_pending_attendance_try current_user verification_id action register_number notes db =
     (if us_role current_user \<noteq> ''admin'' \<and> us_role current_user \<noteq> ''department''
      then Inl (Http (HTTPException 403))
      else (case find (\<lambda>p. pv_id p = verification_id) (db_pending db) of
        None \<Rightarrow> Inl (Http (HTTPException 404))
      | Some pending \<Rightarrow>
          if action = ''approve'' then
            (case register_number of
               None \<Rightarrow> Inl (Http (HTTPException 400))
             | Some reg \<Rightarrow>
                 if reg = [] then Inl (Http (HTTPException 400))
                 else (case find_student db reg of
                         None \<Rightarrow> Inl (Http (HTTPException 404))
                       | Some s \<Rightarrow> Inl (AttributeError ''timestamp'')))
          else if action = ''reject'' then
            Inr (rejected_response notes,
                 db\<lparr>db_pending :=
                      update_first (\<lambda>p. pv_id p = verification_id)
                        (\<lambda>p. p\<lparr>pv_status := ''rejected''\<rparr>) (db_pending db)\<rparr>)
          else Inl (Http (HTTPException 400))))"

definition verify_pending_attendance_endpoint ::
  "user \<Rightarrow> nat \<Rightarrow> string \<Rightarrow> string option \<Rightarrow> string \<Rightarrow> database
     \<Rightarrow> (http_exception + response) \<times> database" where
  "verify_pending_attendance_endpoint current_user verification_id action register_number notes db =
     (case verify_pending_attendance_try current_user verification_id action register_number notes db of
        Inl e \<Rightarrow> (Inl (HTTPException 500), db)
      | Inr (r, db') \<Rightarrow> (Inr r, db'))"

section \<open>Concrete data for the examples\<close>

definition ex_env :: "string \<rightharpoonup> real" where
  "ex_env = Map.empty"

definition ex_siamese :: siamese_service where
  "ex_siamese = siamese_init ex_env True"

definition ex_face_service :: face_service where
  "ex_face_service = \<lparr>fs_use_siamese = True, fs_enable_liveness = True, fs_siamese = ex_siamese\<rparr>"

definition ex_service :: attendance_service where
  "ex_service = \<lparr>as_cutoff_time = mk_time 8 45, as_face_service = ex_face_service\<rparr>"

definition ex_alice :: student where
  "ex_alice = \<lparr>st_register_number = ''2022001'', st_name = ''Alice'', st_department = ''CS'',
               st_face_encoding = Some ''encA'', st_is_active = True\<rparr>"

definition ex_bob :: student where
  "ex_bob = \<lparr>st_register_number = ''2022002'', st_name = ''Bob'', st_department = ''CS'',
             st_face_encoding = Some ''encB'', st_is_active = True\<rparr>"

definition ex_carol :: student where
  "ex_carol = \<lparr>st_register_number = ''2022003'', st_name = ''Carol'', st_department = ''IT'',
               st_face_encoding = None, st_is_active = True\<rparr>"

definition ex_dave :: student where
  "ex_dave = \<lparr>st_register_number = ''2022004'', st_name = ''Dave'', st_department = ''IT'',
              st_face_encoding = Some ''encD'', st_is_active = True\<rparr>"

definition ex_erin :: student where
  "ex_erin = \<lparr>st_register_number = ''2022005'', st_name = ''Erin'', st_department = ''IT'',
              st_face_encoding = Some ''encE'', st_is_active = True\<rparr>"

definition ex_db :: database where
  "ex_db = \<lparr>db_students = [ex_bob, ex_alice, ex_carol, ex_dave, ex_erin],
            db_attendance = [], db_pending = []\<rparr>"

definition ex_at :: "nat \<Rightarrow> nat \<Rightarrow> clock" where
  "ex_at h m =
     \<lparr>ck_now = \<lparr>dt_date = ''2024-01-15'', dt_time = mk_time h m\<rparr>,
      ck_utcnow = \<lparr>dt_date = ''2024-01-15'', dt_time = mk_time (h - 5) m\<rparr>\<rparr>"

text \<open>
  A live capture of Alice: it resembles her stored encoding at 0.9, Dave's at 0.9 as
  well, Bob's at 0.7 and Erin's at 0.3.  The second image shows the same face flat: no
  landmarks are found and the texture and colour statistics are zero.  The third cannot
  be decoded at all: \<open>cv2.imdecode\<close> raises.
\<close>

definition ex_similarity :: "string \<Rightarrow> real option" where
  "ex_similarity enc =
     (if enc = ''encA'' then Some 0.9
      else if enc = ''encB'' then Some 0.7
      else if enc = ''encD'' then Some 0.9
      else if enc = ''encE'' then Some 0.3
      else None)"

definition ex_image_live :: image where
  "ex_image_live =
     \<lparr>img_decode = Returns True,
      img_mesh = Returns (Some \<lparr>lm_z_std = 0.03, lm_left_height = 0.2, lm_right_height = 0.2\<rparr>),
      img_texture = Returns \<lparr>tx_variance = 250, tx_pattern_ratio = 0.5\<rparr>,
      img_color = Returns \<lparr>cl_skin_ratio = 0.5, cl_sat_std = 25\<rparr>,
      img_embedding = Some ''encLive'',
      img_similarity = ex_similarity,
      img_deepface_embedding = None,
      img_deepface_similarity = ex_similarity\<rparr>"

definition ex_image_flat :: image where
  "ex_image_flat =
     \<lparr>img_decode = Returns True,
      img_mesh = Returns None,
      img_texture = Returns \<lparr>tx_variance = 0, tx_pattern_ratio = 1\<rparr>,
      img_color = Returns \<lparr>cl_skin_ratio = 0, cl_sat_std = 0\<rparr>,
      img_embedding = Some ''encLive'',
      img_similarity = ex_similarity,
      img_deepface_embedding = None,
      img_deepface_similarity = ex_similarity\<rparr>"

definition ex_image_broken :: image where
  "ex_image_broken =
     \<lparr>img_decode = Raises,
      img_mesh = Raises,
      img_texture = Raises,
      img_color = Raises,
      img_embedding = None,
      img_similarity = ex_similarity,
      img_deepface_embedding = None,
      img_deepface_similarity = ex_similarity\<rparr>"

definition ex_operator :: user where
  "ex_operator = \<lparr>us_username = ''op1'', us_role = ''operator''\<rparr>"

definition ex_admin :: user where
  "ex_admin = \<lparr>us_username = ''hod'', us_role = ''admin''\<rparr>"

definition ex_qr :: qr_data where
  "ex_qr = \<lparr>qd_truthy = True, qd_decoded = Some [(''register_number'', ''2022001'')]\<rparr>"

text \<open>Alice has been marked present today already.\<close>

definition ex_record :: attendance_record where
  "ex_record =
     \<lparr>ar_id = 1, ar_student_register_number = ''2022001'', ar_date = ''2024-01-15'',
      ar_time = ck_now (ex_at 8 30), ar_status = ''Present'', ar_verification_method = ''face_id'',
      ar_face_confidence = 0.9, ar_qr_verified = True, ar_verification_status = ''verified'',
      ar_verified_by = None, ar_verification_notes = None, ar_notification_sent = False,
      ar_updated_at = ck_utcnow (ex_at 8 30)\<rparr>"


text \<open>Carol, who has no stored encoding, has been marked present today already.\<close>

definition ex_record_carol :: attendance_record where
  "ex_record_carol = ex_record\<lparr>ar_student_register_number := ''2022003''\<rparr>"

definition ex_db_carol_marked :: database where
  "ex_db_carol_marked = ex_db\<lparr>db_attendance := [ex_record_carol]\<rparr>"

text \<open>
  Bob forgot his card at 09:10; the capture waits for review, as an attendance row and as
  a row of \<open>pending_verifications\<close>.
\<close>

definition ex_record_pending :: attendance_record where
  "ex_record_pending =
     \<lparr>ar_id = 1, ar_student_register_number = ''2022002'', ar_date = ''2024-01-15'',
      ar_time = ck_now (ex_at 9 10), ar_status = ''Pending'',
      ar_verification_method = ''face_only'',
      ar_face_confidence = 0.7, ar_qr_verified = False, ar_verification_status = ''pending'',
      ar_verified_by = None, ar_verification_notes = None, ar_notification_sent = False,
      ar_updated_at = ck_utcnow (ex_at 9 10)\<rparr>"

definition ex_pending :: pending_verification where
  "ex_pending =
     \<lparr>pv_id = 1, pv_attendance_record_id = 1, pv_student_register_number = ''2022002'',
      pv_student_name = ''Bob'', pv_date = ''2024-01-15'', pv_time = ck_now (ex_at 9 10),
      pv_face_confidence = 0.7, pv_manual_register_number = None, pv_status = ''pending'',
      pv_reviewed_by = None, pv_review_notes = None, pv_reviewed_at = None\<rparr>"

definition ex_db_review :: database where
  "ex_db_review = ex_db\<lparr>db_attendance := [ex_record_pending], db_pending := [ex_pending]\<rparr>"

definition ex_db_rejected :: database where
  "ex_db_rejected =
     ex_db\<lparr>db_attendance := [ex_record_pending],
           db_pending := [ex_pending\<lparr>pv_status := ''rejected''\<rparr>]\<rparr>"

section \<open>Facts about the helpers\<close>

lemma time_gt_irrefl: "\<not> time_gt t t"
  by (simp add: time_gt_def)

lemma time_gt_trans: "time_gt a b \<Longrightarrow> time_gt b c \<Longrightarrow> time_gt a c"
  unfolding time_gt_def by (elim disjE conjE) simp_all

lemma time_gt_total: "time_gt a b \<or> a = b \<or> time_gt b a"
  unfolding time_gt_def by (cases a, cases b) auto

lemma map_update_first:
  "(\<And>x. g (f x) = g x) \<Longrightarrow> map g (update_first P f xs) = map g xs"
  by (induction xs) auto

lemma mark_notified_statuses:
  "map ar_status (db_attendance (mark_notified n ck i db)) = map ar_status (db_attendance db)"
  by (simp add: mark_notified_def map_update_first)

lemma mark_notified_students: "db_students (mark_notified n ck i db) = db_students db"
  and mark_notified_pending: "db_pending (mark_notified n ck i db) = db_pending db"
  by (simp_all add: mark_notified_def)

lemma add_attendance_simps:
  "db_attendance (add_attendance r db) = db_attendance db @ [r]"
  "db_students (add_attendance r db) = db_students db"
  "db_pending (add_attendance r db) = db_pending db"
  by (simp_all add: add_attendance_def)

lemma new_attendance_status: "ar_status (new_attendance db ck reg st m c q v) = st"
  by (simp add: new_attendance_def)

lemma verify_or_register_face_frame:
  "db_attendance (snd (snd (verify_or_register_face fso img reg s db))) = db_attendance db"
  "db_pending (snd (snd (verify_or_register_face fso img reg s db))) = db_pending db"
  by (auto simp: verify_or_register_face_def Let_def split: option.splits prod.splits)

lemma verify_or_register_face_frameD:
  "verify_or_register_face fso img reg s db = (m, c, db1) \<Longrightarrow>
     db_attendance db1 = db_attendance db \<and> db_pending db1 = db_pending db"
  using verify_or_register_face_frame[of fso img reg s db] by simp

text \<open>Evaluation rules for the concrete data.\<close>

lemmas ex_people = ex_alice_def ex_bob_def ex_carol_def ex_dave_def ex_erin_def

lemmas ex_services =
  ex_service_def ex_face_service_def ex_siamese_def ex_env_def siamese_init_def getenv_float_def

lemmas ex_clock = ex_at_def mk_time_def time_gt_def

lemmas face_defs =
  verify_stored_face_def candidate_result_def verify_face_def verify_face_with_liveness_def
  check_liveness_def encode_face_def siamese_verify_face_def siamese_encode_face_def
  siamese_verify_face_with_liveness_def siamese_check_liveness_def check_face_mesh_liveness_def
  check_texture_liveness_def check_color_distribution_def calculate_eye_aspect_ratio_def
  truthy_def ex_similarity_def

lemmas query_defs =
  find_student_def find_active_student_def existing_attendance_def verify_student_qr_def
  enrolled_students_def find_matching_student_def fm_step_def

lemmas response_defs =
  error_response_def duplicate_response_def success_response_def case_b_response_def
  verification_response_def

section \<open>The cutoff\<close>

text \<open>
  Claim C5.  On the token and face path, both in \<open>_handle_face_qr_attendance\<close> (cutoff
  from the configuration) and in \<open>mark_attendance_verified\<close> (cutoff 08:45), a capture
  that is accepted is classified \<open>Late\<close> exactly when its time of day is strictly later
  than the cutoff, and \<open>Present\<close> otherwise; the new row carries that status and the rows
  already there keep theirs.  In particular a capture at exactly the cutoff is \<open>Present\<close>.
\<close>

theorem cutoff_boundary_strict:
  "(handle_face_qr_attendance svc img qr ck notified db = (r, db') \<and> rs_status r = ''success'' \<longrightarrow>
      rs_attendance_status r =
        Some (if time_gt (dt_time (ck_now ck)) (as_cutoff_time svc) then ''Late'' else ''Present'') \<and>
      map ar_status (db_attendance db') =
        map ar_status (db_attendance db) @
          [if time_gt (dt_time (ck_now ck)) (as_cutoff_time svc) then ''Late'' else ''Present''] \<and>
      (dt_time (ck_now ck) = as_cutoff_time svc \<longrightarrow> rs_attendance_status r = Some ''Present''))
   \<and>
   (mark_attendance_verified fso img reg ck notified db = (r, db') \<and> rs_status r = ''success'' \<longrightarrow>
      rs_attendance_status r =
        Some (if time_gt (dt_time (ck_now ck)) (mk_time 8 45) then ''Late'' else ''Present'') \<and>
      map ar_status (db_attendance db') =
        map ar_status (db_attendance db) @
          [if time_gt (dt_time (ck_now ck)) (mk_time 8 45) then ''Late'' else ''Present''] \<and>
      (dt_time (ck_now ck) = mk_time 8 45 \<longrightarrow> rs_attendance_status r = Some ''Present''))"
proof (intro conjI impI)
  assume a: "handle_face_qr_attendance svc img qr ck notified db = (r, db') \<and> rs_status r = ''success''"
  then show q1: "rs_attendance_status r =
        Some (if time_gt (dt_time (ck_now ck)) (as_cutoff_time svc) then ''Late'' else ''Present'')"
    by (auto simp: handle_face_qr_attendance_def Let_def success_response_def error_response_def
        duplicate_response_def split: option.splits if_splits prod.splits)
  from a show "map ar_status (db_attendance db') =
        map ar_status (db_attendance db) @
          [if time_gt (dt_time (ck_now ck)) (as_cutoff_time svc) then ''Late'' else ''Present'']"
    by (auto simp: handle_face_qr_attendance_def Let_def success_response_def error_response_def
        duplicate_response_def mark_notified_statuses add_attendance_simps new_attendance_status
        split: option.splits if_splits prod.splits)
  assume "dt_time (ck_now ck) = as_cutoff_time svc"
  with q1 show "rs_attendance_status r = Some ''Present''"
    by (simp add: time_gt_irrefl)
next
  assume a: "mark_attendance_verified fso img reg ck notified db = (r, db') \<and> rs_status r = ''success''"
  then show q1: "rs_attendance_status r =
        Some (if time_gt (dt_time (ck_now ck)) (mk_time 8 45) then ''Late'' else ''Present'')"
    by (auto simp: mark_attendance_verified_def Let_def success_response_def error_response_def
        duplicate_response_def case_b_response_def split: option.splits if_splits prod.splits)
  from a show "map ar_status (db_attendance db') =
        map ar_status (db_attendance db) @
          [if time_gt (dt_time (ck_now ck)) (mk_time 8 45) then ''Late'' else ''Present'']"
    by (auto dest!: verify_or_register_face_frameD
        simp: mark_attendance_verified_def Let_def success_response_def error_response_def
        duplicate_response_def case_b_response_def
        mark_notified_statuses add_attendance_simps new_attendance_status
        split: option.splits if_splits prod.splits)
  assume "dt_time (ck_now ck) = mk_time 8 45"
  with q1 show "rs_attendance_status r = Some ''Present''"
    by (simp add: time_gt_irrefl)
qed

text \<open>
  Alice at 08:45:00 sharp, by token and face through the service and through the
  endpoint: accepted and \<open>Present\<close> both times.
\<close>

theorem cutoff_boundary_strict_witness:
  "rs_status (fst (handle_face_qr_attendance ex_service ex_image_live ex_qr (ex_at 8 45) False ex_db))
     = ''success'' \<and>
   rs_status (fst (mark_attendance_verified (Some ex_face_service) ex_image_live ''2022001''
     (ex_at 8 45) False ex_db)) = ''success'' \<and>
   dt_time (ck_now (ex_at 8 45)) = as_cutoff_time ex_service \<and>
   rs_attendance_status
     (fst (handle_face_qr_attendance ex_service ex_image_live ex_qr (ex_at 8 45) False ex_db))
     = Some ''Present'' \<and>
   rs_attendance_status
     (fst (mark_attendance_verified (Some ex_face_service) ex_image_live ''2022001''
        (ex_at 8 45) False ex_db)) = Some ''Present'' \<and>
   map ar_status (db_attendance (snd (mark_attendance_verified (Some ex_face_service)
      ex_image_live ''2022001'' (ex_at 8 45) False ex_db))) = [''Present'']"
proof -
  obtain r1 d1 where h1:
    "handle_face_qr_attendance ex_service ex_image_live ex_qr (ex_at 8 45) False ex_db = (r1, d1)"
    by (cases "handle_face_qr_attendance ex_service ex_image_live ex_qr (ex_at 8 45) False ex_db")
  obtain r2 d2 where h2:
    "mark_attendance_verified (Some ex_face_service) ex_image_live ''2022001'' (ex_at 8 45) False ex_db
       = (r2, d2)"
    by (cases "mark_attendance_verified (Some ex_face_service) ex_image_live ''2022001''
         (ex_at 8 45) False ex_db")
  have s1: "rs_status r1 = ''success''"
    using h1 [symmetric]
    by (simp add: handle_face_qr_attendance_def ex_qr_def ex_db_def ex_people ex_services
        ex_clock ex_image_live_def face_defs query_defs response_defs Let_def)
  have s2: "rs_status r2 = ''success''"
    using h2 [symmetric]
    by (simp add: mark_attendance_verified_def verify_or_register_face_def ex_db_def ex_people
        ex_services ex_clock ex_image_live_def face_defs query_defs response_defs Let_def)
  have c: "dt_time (ck_now (ex_at 8 45)) = as_cutoff_time ex_service"
    by (simp add: ex_at_def ex_service_def)
  have c2: "dt_time (ck_now (ex_at 8 45)) = mk_time 8 45"
    by (simp add: ex_at_def)
  have e: "db_attendance ex_db = []"
    by (simp add: ex_db_def)
  from cutoff_boundary_strict [of ex_service ex_image_live ex_qr "ex_at 8 45" False ex_db r1 d1
      "Some ex_face_service" "''2022001''"]
    cutoff_boundary_strict [of ex_service ex_image_live ex_qr "ex_at 8 45" False ex_db r2 d2
      "Some ex_face_service" "''2022001''"]
    h1 h2 s1 s2 c c2 e
  show ?thesis
    by (simp add: time_gt_irrefl)
qed

section \<open>The duplicate guard\<close>

text \<open>
  \<open>mark_attendance\<close> always runs one of the three handlers, so what holds of the three
  holds of every request to it.
\<close>

lemma mark_attendance_dispatch:
  "mark_attendance svc img qr manual ck notified db \<in>
     {handle_face_only_attendance svc img ck notified db} \<union>
     {handle_forgot_id_attendance svc img reg ck notified db | reg. manual = Some reg} \<union>
     {handle_face_qr_attendance svc img q ck notified db | q. qr = Some q}"
  by (auto simp: mark_attendance_def Let_def split: option.splits)



section \<open>The liveness score\<close>

text \<open>
  Claim C8.  Once the image is decoded, \<open>check_liveness\<close> of the Siamese service returns
  the score 0.5 * mesh + 0.3 * texture + 0.2 * colour of the three signals and decides
  \<open>is_live\<close> as score \<ge> liveness threshold; the threshold is 0.35 when the environment
  does not set \<open>LIVENESS_THRESHOLD\<close>; and \<open>FaceRecognitionService.check_liveness\<close> is
  that function whenever the Siamese network and liveness detection are enabled.
\<close>

theorem liveness_score_is_weighted_sum:
  "(img_decode img = Returns True \<longrightarrow>
      siamese_check_liveness sn img =
        (0.5 * check_face_mesh_liveness sn img + 0.3 * check_texture_liveness img
           + 0.2 * check_color_distribution img \<ge> sn_liveness_threshold sn,
         0.5 * check_face_mesh_liveness sn img + 0.3 * check_texture_liveness img
           + 0.2 * check_color_distribution img))
   \<and> (env ''LIVENESS_THRESHOLD'' = None \<longrightarrow> sn_liveness_threshold (siamese_init env mesh_ok) = 0.35)
   \<and> (fs_use_siamese fs \<and> fs_enable_liveness fs \<longrightarrow>
        check_liveness fs img = siamese_check_liveness (fs_siamese fs) img)"
  by (simp add: siamese_check_liveness_def Let_def siamese_init_def getenv_float_def
      check_liveness_def mult.commute)

text \<open>
  The live capture has mesh 0.72, texture 0.5 and colour 0.5: score 0.61, above 0.35.
\<close>

theorem liveness_score_is_weighted_sum_witness:
  "img_decode ex_image_live = Returns True \<and>
   ex_env ''LIVENESS_THRESHOLD'' = None \<and>
   fs_use_siamese ex_face_service \<and> fs_enable_liveness ex_face_service \<and>
   check_face_mesh_liveness ex_siamese ex_image_live = 0.72 \<and>
   check_texture_liveness ex_image_live = 0.5 \<and>
   check_color_distribution ex_image_live = 0.5 \<and>
   sn_liveness_threshold ex_siamese = 0.35 \<and>
   siamese_check_liveness ex_siamese ex_image_live = (True, 0.61) \<and>
   check_liveness ex_face_service ex_image_live = (True, 0.61)"
proof -
  have d: "img_decode ex_image_live = Returns True"
    by (simp add: ex_image_live_def)
  have v: "ex_env ''LIVENESS_THRESHOLD'' = None"
    by (simp add: ex_env_def)
  have u: "fs_use_siamese ex_face_service \<and> fs_enable_liveness ex_face_service"
    by (simp add: ex_face_service_def)
  have m: "check_face_mesh_liveness ex_siamese ex_image_live = 0.72"
    by (simp add: check_face_mesh_liveness_def calculate_eye_aspect_ratio_def ex_image_live_def
        ex_siamese_def siamese_init_def Let_def)
  have t: "check_texture_liveness ex_image_live = 0.5"
    by (simp add: check_texture_liveness_def ex_image_live_def Let_def)
  have c: "check_color_distribution ex_image_live = 0.5"
    by (simp add: check_color_distribution_def ex_image_live_def Let_def)
  have s: "fs_siamese ex_face_service = ex_siamese" "ex_siamese = siamese_init ex_env True"
    by (simp_all add: ex_face_service_def ex_siamese_def)
  from liveness_score_is_weighted_sum [of ex_image_live ex_siamese ex_env True ex_face_service]
    d v u m t c s
  show ?thesis by simp
qed

text \<open>
  Claim C6 as stated fails: when no face landmarks are found the mesh signal is 0.0, not
  a default verdict.  The flat image has no landmarks and zero texture and colour
  statistics; the verdict is not live, with score 0.0.
\<close>

theorem no_landmarks_not_live_counterexample:
  "img_mesh ex_image_flat = Returns None \<and>
   siamese_check_liveness ex_siamese ex_image_flat = (False, 0) \<and>
   check_liveness ex_face_service ex_image_flat = (False, 0)"
  by (simp add: face_defs ex_image_flat_def ex_services Let_def)

text \<open>
  Claim C6, amended.  \<open>check_liveness\<close> returns live with score 1.0 when the evaluation
  itself raises (decoding the image), and \<open>FaceRecognitionService.check_liveness\<close> also
  when liveness detection is switched off.  An image that decodes to nothing is not live
  with score 0.0.  A signal whose computation raises, and the mesh signal when no face
  mesh is available, count 1.0 for that signal only.  When no face landmarks are found
  the mesh signal is 0.0 and the verdict rests on 0.3 * texture + 0.2 * colour against the
  threshold.
\<close>

theorem liveness_failure_modes:
  "(img_decode img = Raises \<longrightarrow> siamese_check_liveness sn img = (True, 1))
   \<and> (img_decode img = Returns False \<longrightarrow> siamese_check_liveness sn img = (False, 0))
   \<and> (\<not> (fs_use_siamese fs \<and> fs_enable_liveness fs) \<longrightarrow> check_liveness fs img = (True, 1))
   \<and> (sn_face_mesh sn \<and> img_mesh img = Returns None \<longrightarrow> check_face_mesh_liveness sn img = 0)
   \<and> (img_decode img = Returns True \<and> sn_face_mesh sn \<and> img_mesh img = Returns None \<longrightarrow>
        siamese_check_liveness sn img =
          (0.3 * check_texture_liveness img + 0.2 * check_color_distribution img
             \<ge> sn_liveness_threshold sn,
           0.3 * check_texture_liveness img + 0.2 * check_color_distribution img))
   \<and> (\<not> sn_face_mesh sn \<longrightarrow> check_face_mesh_liveness sn img = 1)
   \<and> (img_mesh img = Raises \<longrightarrow> check_face_mesh_liveness sn img = 1)
   \<and> (img_texture img = Raises \<longrightarrow> check_texture_liveness img = 1)
   \<and> (img_color img = Raises \<longrightarrow> check_color_distribution img = 1)"
  by (simp add: siamese_check_liveness_def check_liveness_def check_face_mesh_liveness_def
      check_texture_liveness_def check_color_distribution_def Let_def mult.commute)

text \<open>
  The image that cannot be decoded is taken as live with score 1.0; each of its signals
  alone would be 1.0.  For the flat image the mesh signal is 0.0 and the score is that of
  texture and colour.
\<close>

theorem liveness_failure_modes_witness:
  "img_decode ex_image_broken = Raises \<and>
   siamese_check_liveness ex_siamese ex_image_broken = (True, 1) \<and>
   check_face_mesh_liveness ex_siamese ex_image_broken = 1 \<and>
   check_texture_liveness ex_image_broken = 1 \<and>
   check_color_distribution ex_image_broken = 1 \<and>
   sn_face_mesh ex_siamese \<and> img_mesh ex_image_flat = Returns None \<and>
   img_decode ex_image_flat = Returns True \<and>
   check_face_mesh_liveness ex_siamese ex_image_flat = 0 \<and>
   siamese_check_liveness ex_siamese ex_image_flat =
     (0.3 * check_texture_liveness ex_image_flat + 0.2 * check_color_distribution ex_image_flat
        \<ge> sn_liveness_threshold ex_siamese,
      0.3 * check_texture_liveness ex_image_flat + 0.2 * check_color_distribution ex_image_flat)"
proof -
  have b: "img_decode ex_image_broken = Raises" "img_mesh ex_image_broken = Raises"
    "img_texture ex_image_broken = Raises" "img_color ex_image_broken = Raises"
    by (simp_all add: ex_image_broken_def)
  have f: "sn_face_mesh ex_siamese" "img_mesh ex_image_flat = Returns None"
    "img_decode ex_image_flat = Returns True"
    by (simp_all add: ex_siamese_def siamese_init_def ex_image_flat_def)
  from liveness_failure_modes [of ex_image_broken ex_siamese ex_face_service]
    liveness_failure_modes [of ex_image_flat ex_siamese ex_face_service] b f
  show ?thesis by simp
qed

section \<open>Identification by face\<close>

lemma fm_step_unfold:
  "fm_step fs img s (b, h) =
     (if fst (candidate_result fs img s) \<and> snd (candidate_result fs img s) > h
      then (Some s, snd (candidate_result fs img s)) else (b, h))"
  by (simp add: fm_step_def split: prod.splits)

text \<open>A match has a positive confidence as soon as the threshold is positive.\<close>

lemma match_positive:
  assumes "0 < sn_threshold (fs_siamese fs)" and "fst (candidate_result fs img s)"
  shows "0 < snd (candidate_result fs img s)"
  using assms
  by (auto simp: candidate_result_def verify_face_def siamese_verify_face_def Let_def
      split: option.splits if_splits)

text \<open>
  The loop invariant of \<open>find_matching_student\<close>, by induction on the students seen so
  far (the loop appends to them, hence induction from the right).
\<close>

lemma fm_fold_invariant:
  assumes pos: "\<And>s. s \<in> set xs \<Longrightarrow> fst (candidate_result fs img s)
                  \<Longrightarrow> 0 < snd (candidate_result fs img s)"
      and run: "fold (fm_step fs img) xs (None, 0) = (b, h)"
  shows "(b = None \<longrightarrow> h = 0 \<and> (\<forall>s \<in> set xs. \<not> fst (candidate_result fs img s))) \<and>
         (\<forall>s. b = Some s \<longrightarrow>
            (\<exists>i < length xs. xs ! i = s \<and> candidate_result fs img s = (True, h) \<and>
               (\<forall>j < length xs. fst (candidate_result fs img (xs ! j))
                    \<longrightarrow> snd (candidate_result fs img (xs ! j)) \<le> h) \<and>
               (\<forall>j < i. fst (candidate_result fs img (xs ! j))
                    \<longrightarrow> snd (candidate_result fs img (xs ! j)) < h)))"
  using pos run
proof (induction xs arbitrary: b h rule: rev_induct)
  case Nil
  then show ?case by simp
next
  case (snoc x xs)
  obtain b0 h0 where prev: "fold (fm_step fs img) xs (None, 0) = (b0, h0)"
    by (cases "fold (fm_step fs img) xs (None, 0)")
  have pos0: "\<And>s. s \<in> set xs \<Longrightarrow> fst (candidate_result fs img s)
                \<Longrightarrow> 0 < snd (candidate_result fs img s)"
    using snoc.prems(1) by simp
  note ih = snoc.IH [OF pos0 prev]
  have none0: "b0 = None \<Longrightarrow> h0 = 0 \<and> (\<forall>s \<in> set xs. \<not> fst (candidate_result fs img s))"
    using ih by blast
  have below: "\<And>j. j < length xs \<Longrightarrow> fst (candidate_result fs img (xs ! j))
                 \<Longrightarrow> snd (candidate_result fs img (xs ! j)) \<le> h0"
  proof -
    fix j assume j: "j < length xs" and m: "fst (candidate_result fs img (xs ! j))"
    show "snd (candidate_result fs img (xs ! j)) \<le> h0"
    proof (cases b0)
      case None
      with none0 j m show ?thesis by (metis nth_mem)
    next
      case (Some s0)
      with ih j m show ?thesis by blast
    qed
  qed
  have step: "(b, h) = fm_step fs img x (b0, h0)"
    using snoc.prems(2) prev by simp
  show ?case
  proof (cases "fst (candidate_result fs img x) \<and> snd (candidate_result fs img x) > h0")
    case True
    with step have bh: "b = Some x" "h = snd (candidate_result fs img x)"
      by (simp_all add: fm_step_unfold)
    have cr: "candidate_result fs img x = (True, h)"
      using True bh by (cases "candidate_result fs img x") simp
    have all: "\<forall>j < length (xs @ [x]). fst (candidate_result fs img ((xs @ [x]) ! j))
                 \<longrightarrow> snd (candidate_result fs img ((xs @ [x]) ! j)) \<le> h"
    proof (intro allI impI)
      fix j assume j: "j < length (xs @ [x])"
        and m: "fst (candidate_result fs img ((xs @ [x]) ! j))"
      show "snd (candidate_result fs img ((xs @ [x]) ! j)) \<le> h"
      proof (cases "j < length xs")
        case True
        with m below [of j] have "snd (candidate_result fs img (xs ! j)) \<le> h0"
          by (simp add: nth_append)
        with \<open>j < length xs\<close> \<open>fst (candidate_result fs img x) \<and> snd (candidate_result fs img x) > h0\<close> bh
        show ?thesis by (simp add: nth_append)
      next
        case False
        with j have "j = length xs" by simp
        with bh show ?thesis by simp
      qed
    qed
    have before: "\<forall>j < length xs. fst (candidate_result fs img ((xs @ [x]) ! j))
                 \<longrightarrow> snd (candidate_result fs img ((xs @ [x]) ! j)) < h"
    proof (intro allI impI)
      fix j assume j: "j < length xs"
        and m: "fst (candidate_result fs img ((xs @ [x]) ! j))"
      with below [of j] have "snd (candidate_result fs img (xs ! j)) \<le> h0"
        by (simp add: nth_append)
      with j True bh show "snd (candidate_result fs img ((xs @ [x]) ! j)) < h"
        by (simp add: nth_append)
    qed
    have "\<exists>i < length (xs @ [x]). (xs @ [x]) ! i = x \<and> candidate_result fs img x = (True, h) \<and>
            (\<forall>j < length (xs @ [x]). fst (candidate_result fs img ((xs @ [x]) ! j))
                 \<longrightarrow> snd (candidate_result fs img ((xs @ [x]) ! j)) \<le> h) \<and>
            (\<forall>j < i. fst (candidate_result fs img ((xs @ [x]) ! j))
                 \<longrightarrow> snd (candidate_result fs img ((xs @ [x]) ! j)) < h)"
      using cr all before by (intro exI [of _ "length xs"]) simp
    with bh show ?thesis by simp
  next
    case False
    with step have bh: "b = b0" "h = h0"
      by (simp_all add: fm_step_unfold)
    have xle: "fst (candidate_result fs img x) \<Longrightarrow> snd (candidate_result fs img x) \<le> h0"
      using False by auto
    show ?thesis
    proof (cases b0)
      case None
      with none0 have h0: "h0 = 0" and nomatch: "\<forall>s \<in> set xs. \<not> fst (candidate_result fs img s)"
        by simp_all
      have "\<not> fst (candidate_result fs img x)"
      proof
        assume m: "fst (candidate_result fs img x)"
        with snoc.prems(1) [of x] have "0 < snd (candidate_result fs img x)" by simp
        with xle [OF m] h0 show False by simp
      qed
      with None bh h0 nomatch show ?thesis by simp
    next
      case (Some s0)
      with ih obtain i where i: "i < length xs" "xs ! i = s0"
        "candidate_result fs img s0 = (True, h0)"
        "\<forall>j < i. fst (candidate_result fs img (xs ! j))
             \<longrightarrow> snd (candidate_result fs img (xs ! j)) < h0"
        by blast
      have all: "\<forall>j < length (xs @ [x]). fst (candidate_result fs img ((xs @ [x]) ! j))
                 \<longrightarrow> snd (candidate_result fs img ((xs @ [x]) ! j)) \<le> h0"
      proof (intro allI impI)
        fix j assume j: "j < length (xs @ [x])"
          and m: "fst (candidate_result fs img ((xs @ [x]) ! j))"
        show "snd (candidate_result fs img ((xs @ [x]) ! j)) \<le> h0"
        proof (cases "j < length xs")
          case True
          with m below [of j] show ?thesis by (simp add: nth_append)
        next
          case False
          with j have "j = length xs" by simp
          with m xle show ?thesis by simp
        qed
      qed
      have before: "\<forall>j < i. fst (candidate_result fs img ((xs @ [x]) ! j))
                 \<longrightarrow> snd (candidate_result fs img ((xs @ [x]) ! j)) < h0"
        using i(1) i(4) by (simp add: nth_append)
      have "\<exists>i < length (xs @ [x]). (xs @ [x]) ! i = s0 \<and> candidate_result fs img s0 = (True, h0) \<and>
            (\<forall>j < length (xs @ [x]). fst (candidate_result fs img ((xs @ [x]) ! j))
                 \<longrightarrow> snd (candidate_result fs img ((xs @ [x]) ! j)) \<le> h0) \<and>
            (\<forall>j < i. fst (candidate_result fs img ((xs @ [x]) ! j))
                 \<longrightarrow> snd (candidate_result fs img ((xs @ [x]) ! j)) < h0)"
        using i(1,2,3) all before by (intro exI [of _ i]) (simp add: nth_append)
      with Some bh show ?thesis by simp
    qed
  qed
qed

text \<open>
  Claim C7.  With a positive match threshold, \<open>find_matching_student\<close> looks at exactly
  the active students that have a stored encoding, in table order.  It returns nothing
  exactly when none of them verifies.  Otherwise it returns a student of that list who
  verifies, with that student's confidence; no student who verifies has a higher
  confidence, and every student who verifies and comes earlier in the list has a strictly
  lower one: among equals the first one met is kept.
\<close>

theorem find_matching_student_best:
  assumes thr: "0 < sn_threshold (fs_siamese fs)"
  shows
   "set (enrolled_students db) =
      {s \<in> set (db_students db). st_is_active s \<and> st_face_encoding s \<noteq> None}
    \<and> (find_matching_student fs img db = None \<longleftrightarrow>
         (\<forall>s \<in> set (enrolled_students db). \<not> fst (candidate_result fs img s)))
    \<and> (\<forall>s c. find_matching_student fs img db = Some (s, c) \<longrightarrow>
         (\<exists>i < length (enrolled_students db).
            enrolled_students db ! i = s \<and> candidate_result fs img s = (True, c) \<and>
            (\<forall>j < length (enrolled_students db).
                fst (candidate_result fs img (enrolled_students db ! j))
                  \<longrightarrow> snd (candidate_result fs img (enrolled_students db ! j)) \<le> c) \<and>
            (\<forall>j < i. fst (candidate_result fs img (enrolled_students db ! j))
                  \<longrightarrow> snd (candidate_result fs img (enrolled_students db ! j)) < c)))"
proof -
  obtain b h where run: "fold (fm_step fs img) (enrolled_students db) (None, 0) = (b, h)"
    by (cases "fold (fm_step fs img) (enrolled_students db) (None, 0)")
  have pos: "\<And>s. s \<in> set (enrolled_students db) \<Longrightarrow> fst (candidate_result fs img s)
               \<Longrightarrow> 0 < snd (candidate_result fs img s)"
    using thr by (rule match_positive)
  note inv = fm_fold_invariant [OF pos run]
  have res: "find_matching_student fs img db = (case b of None \<Rightarrow> None | Some s \<Rightarrow> Some (s, h))"
    using run by (simp add: find_matching_student_def)
  have p1: "set (enrolled_students db) =
      {s \<in> set (db_students db). st_is_active s \<and> st_face_encoding s \<noteq> None}"
    by (auto simp: enrolled_students_def)
  have p2: "find_matching_student fs img db = None \<longleftrightarrow>
         (\<forall>s \<in> set (enrolled_students db). \<not> fst (candidate_result fs img s))"
  proof (cases b)
    case None
    with inv res show ?thesis by simp
  next
    case (Some s0)
    with inv obtain i where "i < length (enrolled_students db)" "enrolled_students db ! i = s0"
      "candidate_result fs img s0 = (True, h)" by blast
    then have "s0 \<in> set (enrolled_students db)" "fst (candidate_result fs img s0)"
      by (auto simp: in_set_conv_nth)
    with Some res show ?thesis by auto
  qed
  have p3: "\<forall>s c. find_matching_student fs img db = Some (s, c) \<longrightarrow>
         (\<exists>i < length (enrolled_students db).
            enrolled_students db ! i = s \<and> candidate_result fs img s = (True, c) \<and>
            (\<forall>j < length (enrolled_students db).
                fst (candidate_result fs img (enrolled_students db ! j))
                  \<longrightarrow> snd (candidate_result fs img (enrolled_students db ! j)) \<le> c) \<and>
            (\<forall>j < i. fst (candidate_result fs img (enrolled_students db ! j))
                  \<longrightarrow> snd (candidate_result fs img (enrolled_students db ! j)) < c))"
  proof (intro allI impI)
    fix s c assume f: "find_matching_student fs img db = Some (s, c)"
    with res have "b = Some s" "h = c" by (auto split: option.splits)
    with inv show "\<exists>i < length (enrolled_students db).
            enrolled_students db ! i = s \<and> candidate_result fs img s = (True, c) \<and>
            (\<forall>j < length (enrolled_students db).
                fst (candidate_result fs img (enrolled_students db ! j))
                  \<longrightarrow> snd (candidate_result fs img (enrolled_students db ! j)) \<le> c) \<and>
            (\<forall>j < i. fst (candidate_result fs img (enrolled_students db ! j))
                  \<longrightarrow> snd (candidate_result fs img (enrolled_students db ! j)) < c)"
      by blast
  qed
  from p1 p2 p3 show ?thesis by blast
qed

text \<open>
  Bob verifies at 0.7 and is replaced by Alice at 0.9; Dave, also at 0.9, comes later
  and does not replace her; Erin at 0.3 does not verify; Carol has no encoding and is
  not looked at.
\<close>

theorem find_matching_student_best_witness:
  "0 < sn_threshold (fs_siamese ex_face_service) \<and>
   enrolled_students ex_db = [ex_bob, ex_alice, ex_dave, ex_erin] \<and>
   candidate_result ex_face_service ex_image_live ex_bob = (True, 0.7) \<and>
   candidate_result ex_face_service ex_image_live ex_alice = (True, 0.9) \<and>
   candidate_result ex_face_service ex_image_live ex_dave = (True, 0.9) \<and>
   candidate_result ex_face_service ex_image_live ex_erin = (False, 0.3) \<and>
   find_matching_student ex_face_service ex_image_live ex_db = Some (ex_alice, 0.9) \<and>
   find_matching_student ex_face_service ex_image_broken ex_db = None"
proof -
  have t: "0 < sn_threshold (fs_siamese ex_face_service)"
    by (simp add: ex_services)
  have e: "enrolled_students ex_db = [ex_bob, ex_alice, ex_dave, ex_erin]"
    by (simp add: enrolled_students_def ex_db_def ex_people)
  have c: "candidate_result ex_face_service ex_image_live ex_bob = (True, 0.7)"
    "candidate_result ex_face_service ex_image_live ex_alice = (True, 0.9)"
    "candidate_result ex_face_service ex_image_live ex_dave = (True, 0.9)"
    "candidate_result ex_face_service ex_image_live ex_erin = (False, 0.3)"
    by (simp_all add: face_defs ex_people ex_services ex_image_live_def Let_def)
  have n: "\<forall>s \<in> set (enrolled_students ex_db).
             \<not> fst (candidate_result ex_face_service ex_image_broken s)"
    by (simp add: e face_defs ex_people ex_services ex_image_broken_def Let_def)
  have f: "find_matching_student ex_face_service ex_image_live ex_db = Some (ex_alice, 0.9)"
    by (simp add: find_matching_student_def e fm_step_def c)
  from find_matching_student_best [OF t, of ex_db ex_image_broken] n
  have "find_matching_student ex_face_service ex_image_broken ex_db = None"
    by blast
  with t e c f show ?thesis by simp
qed

section \<open>Enrolment at first sight\<close>

lemma find_update_first:
  "(\<And>x. P x \<Longrightarrow> P (f x)) \<Longrightarrow> find P (update_first P f xs) = map_option f (find P xs)"
  by (induction xs) auto

text \<open>
  Claim C10.  In \<open>mark_attendance_verified\<close>, let the student found for the register
  number have no stored encoding, the face service be there, and the image yield an
  encoding.  Then that encoding is written to the student's row whatever happens next:
  the row found for the register number afterwards carries it.  When a row of
  \<open>attendance_records\<close> exists for the student and today, the answer is the duplicate
  error, the attendance table is as before, and the student's row has changed all the
  same.
\<close>

theorem enrolment_precedes_duplicate_check:
  assumes st: "find_active_student db reg = Some s"
      and noenc: "\<not> truthy (st_face_encoding s)"
      and enc: "encode_face fs img = Some e" "e \<noteq> []"
  shows "db_students (snd (mark_attendance_verified (Some fs) img reg ck notified db)) =
           update_first (\<lambda>t. st_register_number t = reg \<and> st_is_active t)
             (\<lambda>t. t\<lparr>st_face_encoding := Some e\<rparr>) (db_students db)
         \<and> find_active_student (snd (mark_attendance_verified (Some fs) img reg ck notified db)) reg
             = Some (s\<lparr>st_face_encoding := Some e\<rparr>)
         \<and> (existing_attendance db (st_register_number s) (dt_date (ck_now ck)) = Some existing \<longrightarrow>
              fst (mark_attendance_verified (Some fs) img reg ck notified db)
                = duplicate_response existing \<and>
              db_attendance (snd (mark_attendance_verified (Some fs) img reg ck notified db))
                = db_attendance db)"
proof -
  let ?P = "\<lambda>t. st_register_number t = reg \<and> st_is_active t"
  let ?f = "\<lambda>t. t\<lparr>st_face_encoding := Some e\<rparr>"
  let ?db1 = "db\<lparr>db_students := update_first ?P ?f (db_students db)\<rparr>"
  have v: "verify_or_register_face (Some fs) img reg s db = (True, 1, ?db1)"
    using noenc enc by (simp add: verify_or_register_face_def truthy_def Let_def)
  have students: "db_students (snd (mark_attendance_verified (Some fs) img reg ck notified db))
                    = update_first ?P ?f (db_students db)"
    using st v
    by (simp add: mark_attendance_verified_def Let_def mark_notified_students add_attendance_simps
        split: option.splits)
  have "find ?P (update_first ?P ?f (db_students db)) = map_option ?f (find ?P (db_students db))"
    by (rule find_update_first) simp
  with st students
  have found: "find_active_student (snd (mark_attendance_verified (Some fs) img reg ck notified db)) reg
                 = Some (s\<lparr>st_face_encoding := Some e\<rparr>)"
    by (simp add: find_active_student_def)
  have dup: "existing_attendance db (st_register_number s) (dt_date (ck_now ck)) = Some existing \<longrightarrow>
              fst (mark_attendance_verified (Some fs) img reg ck notified db)
                = duplicate_response existing \<and>
              db_attendance (snd (mark_attendance_verified (Some fs) img reg ck notified db))
                = db_attendance db"
  proof
    assume "existing_attendance db (st_register_number s) (dt_date (ck_now ck)) = Some existing"
    then have "existing_attendance ?db1 (st_register_number s) (dt_date (ck_now ck)) = Some existing"
      by (simp add: existing_attendance_def)
    with st v show "fst (mark_attendance_verified (Some fs) img reg ck notified db)
                = duplicate_response existing \<and>
              db_attendance (snd (mark_attendance_verified (Some fs) img reg ck notified db))
                = db_attendance db"
      by (simp add: mark_attendance_verified_def)
  qed
  from students found dup show ?thesis by blast
qed

text \<open>
  Carol has no encoding and is already marked today.  Her second attempt is refused as a
  duplicate, and her row now holds the encoding of the image she sent.
\<close>

theorem enrolment_precedes_duplicate_check_witness:
  "find_active_student ex_db_carol_marked ''2022003'' = Some ex_carol \<and>
   \<not> truthy (st_face_encoding ex_carol) \<and>
   encode_face ex_face_service ex_image_live = Some ''encLive'' \<and>
   existing_attendance ex_db_carol_marked (st_register_number ex_carol)
     (dt_date (ck_now (ex_at 9 0))) = Some ex_record_carol \<and>
   fst (mark_attendance_verified (Some ex_face_service) ex_image_live ''2022003'' (ex_at 9 0) False
     ex_db_carol_marked) = duplicate_response ex_record_carol \<and>
   db_attendance (snd (mark_attendance_verified (Some ex_face_service) ex_image_live ''2022003''
     (ex_at 9 0) False ex_db_carol_marked)) = [ex_record_carol] \<and>
   find_active_student (snd (mark_attendance_verified (Some ex_face_service) ex_image_live
     ''2022003'' (ex_at 9 0) False ex_db_carol_marked)) ''2022003''
     = Some (ex_carol\<lparr>st_face_encoding := Some ''encLive''\<rparr>)"
proof -
  have s: "find_active_student ex_db_carol_marked ''2022003'' = Some ex_carol"
    by (simp add: find_active_student_def ex_db_carol_marked_def ex_db_def ex_people)
  have n: "\<not> truthy (st_face_encoding ex_carol)"
    by (simp add: truthy_def ex_carol_def)
  have e: "encode_face ex_face_service ex_image_live = Some ''encLive''"
    by (simp add: encode_face_def siamese_encode_face_def ex_face_service_def ex_image_live_def)
  have ne: "''encLive'' \<noteq> []" by simp
  have x: "existing_attendance ex_db_carol_marked (st_register_number ex_carol)
     (dt_date (ck_now (ex_at 9 0))) = Some ex_record_carol"
    by (simp add: existing_attendance_def ex_db_carol_marked_def ex_db_def ex_record_carol_def
        ex_record_def ex_carol_def ex_at_def)
  have a: "db_attendance ex_db_carol_marked = [ex_record_carol]"
    by (simp add: ex_db_carol_marked_def)
  from enrolment_precedes_duplicate_check [OF s n e ne, where ck = "ex_at 9 0"
      and existing = ex_record_carol and notified = False] s n e x a
  show ?thesis by simp
qed

section \<open>Review of pending attendance\<close>

lemma fold_max_ge: "(a::nat) \<le> fold max xs a"
  by (induction xs arbitrary: a) (auto intro: order_trans [OF max.cobounded2])

lemma fold_max_mem: "(x::nat) \<in> set xs \<Longrightarrow> x \<le> fold max xs a"
proof (induction xs arbitrary: a)
  case Nil
  then show ?case by simp
next
  case (Cons y ys)
  show ?case
  proof (cases "x = y")
    case True
    have "y \<le> max y a" by simp
    also have "\<dots> \<le> fold max ys (max y a)" by (rule fold_max_ge)
    finally show ?thesis using True by simp
  next
    case False
    with Cons.prems have "x \<in> set ys" by simp
    then show ?thesis using Cons.IH by simp
  qed
qed

lemma next_id_fresh: "i \<in> set ids \<Longrightarrow> i < next_id ids"
  unfolding next_id_def using fold_max_mem [of i ids 0] by simp

lemma find_snoc_fresh: "\<forall>x \<in> set xs. \<not> P x \<Longrightarrow> P y \<Longrightarrow> find P (xs @ [y]) = Some y"
  by (induction xs) auto

lemma update_first_snoc_fresh:
  "\<forall>x \<in> set xs. \<not> P x \<Longrightarrow> P y \<Longrightarrow> update_first P f (xs @ [y]) = xs @ [f y]"
  by (induction xs) auto

lemma map_update_first_cong:
  "(\<And>x. g (f x) = g (f' x)) \<Longrightarrow> map g (update_first P f xs) = map g (update_first P f' xs)"
  by (induction xs) auto

text \<open>
  The row that a capture leaves for review is found again under its new id, still
  pending, with the time of the capture in it.
\<close>

lemma pending_row_keeps_capture_time:
  fixes db_cap ck_cap reg m c notified
  defines "row \<equiv> new_attendance db_cap ck_cap reg ''Pending'' m c False ''pending''"
  defines "db \<equiv> mark_notified notified ck_cap (ar_id row) (add_attendance row db_cap)"
  shows "\<exists>a. find (\<lambda>r. ar_id r = next_id (map ar_id (db_attendance db_cap))
                      \<and> ar_verification_status r = ''pending'') (db_attendance db) = Some a
             \<and> ar_time a = ck_now ck_cap"
proof -
  let ?i = "next_id (map ar_id (db_attendance db_cap))"
  have id: "ar_id row = ?i" and vs: "ar_verification_status row = ''pending''"
    and tm: "ar_time row = ck_now ck_cap"
    by (simp_all add: row_def new_attendance_def)
  have fresh: "\<forall>r \<in> set (db_attendance db_cap). ar_id r \<noteq> ?i"
    using next_id_fresh [of _ "map ar_id (db_attendance db_cap)"] by fastforce
  let ?f = "\<lambda>r. r\<lparr>ar_notification_sent := True, ar_updated_at := ck_utcnow ck_cap\<rparr>"
  have tab: "db_attendance db = db_attendance db_cap @ [if notified then ?f row else row]"
    using fresh id
    by (simp add: db_def mark_notified_def add_attendance_def update_first_snoc_fresh)
  have "find (\<lambda>r. ar_id r = ?i \<and> ar_verification_status r = ''pending'')
          (db_attendance db_cap @ [if notified then ?f row else row])
        = Some (if notified then ?f row else row)"
    using fresh id vs by (intro find_snoc_fresh) auto
  with tab tm show ?thesis by auto
qed

text \<open>
  Claim C9.  When \<open>AttendanceService.verify_pending_attendance\<close> approves a pending row,
  the status it writes and reports is \<open>Late\<close> if the time stored in the row is strictly
  after the cutoff and \<open>Present\<close> otherwise.  The clock of the review only reaches
  \<open>updated_at\<close>: the answer and the statuses in the table are the same for any two review
  clocks, and the stored times are not touched.  The time stored in a row that
  \<open>_handle_forgot_id_attendance\<close> or \<open>_handle_face_only_attendance\<close> left for review is
  the time of the capture, so approving such a row splits on the capture time.
\<close>

theorem approval_splits_on_capture_time:
  "(find (\<lambda>r. ar_id r = i \<and> ar_verification_status r = ''pending'') (db_attendance db) = Some a
      \<and> lower action = ''approve'' \<longrightarrow>
      (let st = (if time_gt (dt_time (ar_time a)) (as_cutoff_time svc) then ''Late'' else ''Present'')
       in fst (verify_pending_attendance svc i action who remark ck db) =
            verification_response st (''Attendance approved and marked as '' @ st) \<and>
          db_attendance (snd (verify_pending_attendance svc i action who remark ck db)) =
            update_first (\<lambda>r. ar_id r = i \<and> ar_verification_status r = ''pending'')
              (\<lambda>r. r\<lparr>ar_status := st, ar_verification_status := ''verified'',
                      ar_verified_by := Some who, ar_verification_notes := remark,
                      ar_updated_at := ck_utcnow ck\<rparr>)
              (db_attendance db)))
   \<and> fst (verify_pending_attendance svc i action who remark ck db) =
       fst (verify_pending_attendance svc i action who remark ck' db)
   \<and> map ar_status (db_attendance (snd (verify_pending_attendance svc i action who remark ck db))) =
       map ar_status (db_attendance (snd (verify_pending_attendance svc i action who remark ck' db)))
   \<and> map ar_time (db_attendance (snd (verify_pending_attendance svc i action who remark ck db))) =
       map ar_time (db_attendance db)
   \<and> ((handle_forgot_id_attendance svc img reg ck_cap notified db_cap = (r_cap, db)
         \<or> handle_face_only_attendance svc img ck_cap notified db_cap = (r_cap, db))
       \<and> rs_status r_cap = ''success'' \<and> lower action = ''approve'' \<longrightarrow>
       rs_attendance_status
         (fst (verify_pending_attendance svc (next_id (map ar_id (db_attendance db_cap)))
                 action who remark ck db)) =
         Some (if time_gt (dt_time (ck_now ck_cap)) (as_cutoff_time svc) then ''Late'' else ''Present''))"
proof (intro conjI impI)
  assume "find (\<lambda>r. ar_id r = i \<and> ar_verification_status r = ''pending'') (db_attendance db) = Some a
      \<and> lower action = ''approve''"
  then show "let st = (if time_gt (dt_time (ar_time a)) (as_cutoff_time svc) then ''Late'' else ''Present'')
       in fst (verify_pending_attendance svc i action who remark ck db) =
            verification_response st (''Attendance approved and marked as '' @ st) \<and>
          db_attendance (snd (verify_pending_attendance svc i action who remark ck db)) =
            update_first (\<lambda>r. ar_id r = i \<and> ar_verification_status r = ''pending'')
              (\<lambda>r. r\<lparr>ar_status := st, ar_verification_status := ''verified'',
                      ar_verified_by := Some who, ar_verification_notes := remark,
                      ar_updated_at := ck_utcnow ck\<rparr>)
              (db_attendance db)"
    by (simp add: verify_pending_attendance_def Let_def)
next
  show "fst (verify_pending_attendance svc i action who remark ck db) =
       fst (verify_pending_attendance svc i action who remark ck' db)"
    by (simp add: verify_pending_attendance_def Let_def split: option.splits)
next
  show "map ar_status (db_attendance (snd (verify_pending_attendance svc i action who remark ck db))) =
       map ar_status (db_attendance (snd (verify_pending_attendance svc i action who remark ck' db)))"
    by (auto simp: verify_pending_attendance_def Let_def split: option.splits
        intro!: map_update_first_cong)
next
  show "map ar_time (db_attendance (snd (verify_pending_attendance svc i action who remark ck db))) =
       map ar_time (db_attendance db)"
    by (auto simp: verify_pending_attendance_def Let_def map_update_first split: option.splits)
next
  assume h: "(handle_forgot_id_attendance svc img reg ck_cap notified db_cap = (r_cap, db)
         \<or> handle_face_only_attendance svc img ck_cap notified db_cap = (r_cap, db))
       \<and> rs_status r_cap = ''success'' \<and> lower action = ''approve''"
  let ?i = "next_id (map ar_id (db_attendance db_cap))"
  have "\<exists>r m c. db = mark_notified notified ck_cap
                   (ar_id (new_attendance db_cap ck_cap r ''Pending'' m c False ''pending''))
                   (add_attendance (new_attendance db_cap ck_cap r ''Pending'' m c False ''pending'') db_cap)"
    using h
    by (auto simp: handle_forgot_id_attendance_def handle_face_only_attendance_def Let_def
        error_response_def duplicate_response_def split: option.splits if_splits prod.splits)
  then obtain rg m c where dbeq:
    "db = mark_notified notified ck_cap
            (ar_id (new_attendance db_cap ck_cap rg ''Pending'' m c False ''pending''))
            (add_attendance (new_attendance db_cap ck_cap rg ''Pending'' m c False ''pending'') db_cap)"
    by blast
  from pending_row_keeps_capture_time [where db_cap = db_cap and ck_cap = ck_cap
      and notified = notified and reg = rg and m = m and c = c]
  obtain a where
    a: "find (\<lambda>r. ar_id r = ?i \<and> ar_verification_status r = ''pending'') (db_attendance db) = Some a"
    and t: "ar_time a = ck_now ck_cap"
    unfolding dbeq by blast
  from a t h show "rs_attendance_status
         (fst (verify_pending_attendance svc ?i action who remark ck db)) =
         Some (if time_gt (dt_time (ck_now ck_cap)) (as_cutoff_time svc) then ''Late'' else ''Present'')"
    by (simp add: verify_pending_attendance_def Let_def verification_response_def)
qed

text \<open>
  Bob's capture of 09:10 is approved at 11:00: \<open>Late\<close>.  Alice types her register number
  at 08:40 and is approved at 11:00: \<open>Present\<close>, although 11:00 is after the cutoff.
\<close>

theorem approval_splits_on_capture_time_witness:
  "find (\<lambda>r. ar_id r = 1 \<and> ar_verification_status r = ''pending'') (db_attendance ex_db_review)
     = Some ex_record_pending \<and>
   lower ''Approve'' = ''approve'' \<and>
   rs_attendance_status
     (fst (verify_pending_attendance ex_service 1 ''Approve'' ''hod'' None (ex_at 11 0) ex_db_review))
     = Some ''Late'' \<and>
   map ar_status (db_attendance
     (snd (verify_pending_attendance ex_service 1 ''Approve'' ''hod'' None (ex_at 11 0) ex_db_review)))
     = [''Late''] \<and>
   rs_status (fst (handle_forgot_id_attendance ex_service ex_image_live ''2022001'' (ex_at 8 40)
     False ex_db)) = ''success'' \<and>
   time_gt (dt_time (ck_now (ex_at 11 0))) (as_cutoff_time ex_service) \<and>
   rs_attendance_status
     (fst (verify_pending_attendance ex_service (next_id (map ar_id (db_attendance ex_db)))
        ''Approve'' ''hod'' None (ex_at 11 0)
        (snd (handle_forgot_id_attendance ex_service ex_image_live ''2022001'' (ex_at 8 40)
           False ex_db))))
     = Some ''Present''"
proof -
  have f: "find (\<lambda>r. ar_id r = 1 \<and> ar_verification_status r = ''pending'')
             (db_attendance ex_db_review) = Some ex_record_pending"
    by (simp add: ex_db_review_def ex_record_pending_def)
  have l: "lower ''Approve'' = ''approve''"
    by (simp add: lower_def lower_char_def)
  have t: "time_gt (dt_time (ar_time ex_record_pending)) (as_cutoff_time ex_service)"
    "\<not> time_gt (dt_time (ck_now (ex_at 8 40))) (as_cutoff_time ex_service)"
    "time_gt (dt_time (ck_now (ex_at 11 0))) (as_cutoff_time ex_service)"
    by (simp_all add: ex_record_pending_def ex_service_def ex_clock)
  have a: "db_attendance ex_db_review = [ex_record_pending]"
    by (simp add: ex_db_review_def)
  obtain r_cap d_cap where h:
    "handle_forgot_id_attendance ex_service ex_image_live ''2022001'' (ex_at 8 40) False ex_db
       = (r_cap, d_cap)"
    by (cases "handle_forgot_id_attendance ex_service ex_image_live ''2022001'' (ex_at 8 40)
         False ex_db")
  have s: "rs_status r_cap = ''success''"
    using h [symmetric]
    by (simp add: handle_forgot_id_attendance_def ex_db_def ex_people ex_services
        ex_clock ex_image_live_def face_defs query_defs response_defs Let_def)
  from approval_splits_on_capture_time [where i = 1 and db = ex_db_review
      and a = ex_record_pending and action = "''Approve''" and svc = ex_service
      and who = "''hod''" and remark = None and ck = "ex_at 11 0"]
  have p1: "rs_attendance_status
     (fst (verify_pending_attendance ex_service 1 ''Approve'' ''hod'' None (ex_at 11 0) ex_db_review))
     = Some ''Late''"
    and p2: "map ar_status (db_attendance
     (snd (verify_pending_attendance ex_service 1 ''Approve'' ''hod'' None (ex_at 11 0) ex_db_review)))
     = [''Late'']"
    using f l t a by (simp_all add: Let_def verification_response_def ex_record_pending_def)
  from approval_splits_on_capture_time [where db = d_cap and action = "''Approve''"
      and svc = ex_service and who = "''hod''" and remark = None and ck = "ex_at 11 0"
      and img = ex_image_live and reg = "''2022001''" and ck_cap = "ex_at 8 40"
      and notified = False and db_cap = ex_db and r_cap = r_cap] h s l t
  have p3: "rs_attendance_status
     (fst (verify_pending_attendance ex_service (next_id (map ar_id (db_attendance ex_db)))
        ''Approve'' ''hod'' None (ex_at 11 0) d_cap)) = Some ''Present''"
    by simp
  from f l p1 p2 p3 h s t show ?thesis by simp
qed

text \<open>
  In the service a review is final.  With the primary key unique, a second call for the
  same row, whatever it asks, finds no pending row and changes nothing.
\<close>

lemma find_after_update_first:
  assumes "distinct (map ar_id xs)"
      and "find (\<lambda>r. ar_id r = i \<and> ar_verification_status r = ''pending'') xs = Some a"
      and "\<And>r. ar_id (f r) = ar_id r"
      and "\<And>r. ar_verification_status (f r) \<noteq> ''pending''"
  shows "find (\<lambda>r. ar_id r = i \<and> ar_verification_status r = ''pending'')
           (update_first (\<lambda>r. ar_id r = i \<and> ar_verification_status r = ''pending'') f xs) = None"
  using assms(1,2)
proof (induction xs)
  case Nil
  then show ?case by simp
next
  case (Cons x xs)
  show ?case
  proof (cases "ar_id x = i \<and> ar_verification_status x = ''pending''")
    case True
    with Cons.prems(1) have "\<forall>r \<in> set xs. ar_id r \<noteq> i" by (force simp: image_iff)
    then have "find (\<lambda>r. ar_id r = i \<and> ar_verification_status r = ''pending'') xs = None"
      by (auto simp: find_None_iff)
    with True assms(4) [of x] show ?thesis by simp
  next
    case False
    with Cons.prems have "distinct (map ar_id xs)"
      and "find (\<lambda>r. ar_id r = i \<and> ar_verification_status r = ''pending'') xs = Some a"
      by auto
    then have "find (\<lambda>r. ar_id r = i \<and> ar_verification_status r = ''pending'')
                 (update_first (\<lambda>r. ar_id r = i \<and> ar_verification_status r = ''pending'') f xs)
               = None"
      by (rule Cons.IH)
    with False show ?thesis by auto
  qed
qed

lemma service_resolution_is_terminal:
  assumes keys: "distinct (map ar_id (db_attendance db))"
      and first: "verify_pending_attendance svc i action who remark ck db = (r, db')"
      and ok: "rs_status r = ''success''"
  shows "verify_pending_attendance svc i action' who' remark' ck' db' =
           (error_response ''Pending attendance record not found'', db')"
proof -
  let ?P = "\<lambda>r. ar_id r = i \<and> ar_verification_status r = ''pending''"
  from first ok obtain a where a: "find ?P (db_attendance db) = Some a"
    by (auto simp: verify_pending_attendance_def Let_def error_response_def split: option.splits)
  have "find ?P (db_attendance db') = None"
  proof (cases "lower action = ''approve''")
    case True
    let ?f = "\<lambda>r. r\<lparr>ar_status :=
                        (if time_gt (dt_time (ar_time a)) (as_cutoff_time svc)
                         then ''Late'' else ''Present''),
                      ar_verification_status := ''verified'',
                      ar_verified_by := Some who, ar_verification_notes := remark,
                      ar_updated_at := ck_utcnow ck\<rparr>"
    from first a True have "db_attendance db' = update_first ?P ?f (db_attendance db)"
      by (auto simp: verify_pending_attendance_def Let_def)
    moreover have "find ?P (update_first ?P ?f (db_attendance db)) = None"
      using keys a by (rule find_after_update_first) simp_all
    ultimately show ?thesis by simp
  next
    case False
    with first ok a have rej: "lower action = ''reject''"
      by (auto simp: verify_pending_attendance_def Let_def error_response_def split: if_splits)
    let ?f = "\<lambda>r. r\<lparr>ar_verification_status := ''rejected'',
                      ar_verified_by := Some who, ar_verification_notes := remark,
                      ar_updated_at := ck_utcnow ck\<rparr>"
    from first a False rej have "db_attendance db' = update_first ?P ?f (db_attendance db)"
      by (auto simp: verify_pending_attendance_def Let_def)
    moreover have "find ?P (update_first ?P ?f (db_attendance db)) = None"
      using keys a by (rule find_after_update_first) simp_all
    ultimately show ?thesis by simp
  qed
  then show ?thesis
    by (simp add: verify_pending_attendance_def)
qed

text \<open>
  Claim C3 does not hold of the endpoint \<open>/verify_pending_attendance/{verification_id}\<close>
  of \<open>main.py\<close>.  Bob's pending verification is rejected by the administrator; the row now
  says \<open>rejected\<close>.  A second rejection of the same row is answered like the first, with
  the new notes, instead of an error.
\<close>

theorem endpoint_accepts_second_resolution:
  "verify_pending_attendance_endpoint ex_admin 1 ''reject'' None ''not Bob'' ex_db_review
     = (Inr (rejected_response ''not Bob''), ex_db_rejected) \<and>
   map pv_status (db_pending ex_db_rejected) = [''rejected''] \<and>
   verify_pending_attendance_endpoint ex_admin 1 ''reject'' None ''second look'' ex_db_rejected
     = (Inr (rejected_response ''second look''), ex_db_rejected)"
  by (simp add: verify_pending_attendance_endpoint_def verify_pending_attendance_try_def
      ex_admin_def ex_db_review_def ex_db_rejected_def ex_db_def ex_pending_def)

text \<open>
  An approval through the same endpoint never completes: it stops at the attribute
  \<open>timestamp\<close> and every failure leaves the handler as status 500 with the database
  rolled back.
\<close>

lemma endpoint_approve_raises:
  "verify_pending_attendance_endpoint u i ''approve'' reg remark db = (Inl (HTTPException 500), db)"
  by (simp add: verify_pending_attendance_endpoint_def verify_pending_attendance_try_def
      split: option.splits)

section \<open>Liveness against a matching face\<close>

lemma fold_fixed: "(\<And>x. x \<in> set xs \<Longrightarrow> f x acc = acc) \<Longrightarrow> fold f xs acc = acc"
  by (induction xs) simp_all

text \<open>
  The endpoint \<open>identify_student_from_face\<close> is the one place where a face alone is
  held against liveness: with the Siamese network and liveness detection on, an image
  that fails the liveness check identifies nobody.
\<close>

lemma identify_rejects_not_live:
  assumes on: "fs_use_siamese fs" "fs_enable_liveness fs"
      and dead: "\<not> fst (check_liveness fs img)"
  shows "identify_student_from_face (Some fs) img db = None"
proof -
  have v: "\<And>enc. verify_face_with_liveness fs img enc = (False, 0, False)"
  proof -
    fix enc
    from on dead obtain sc where "siamese_check_liveness (fs_siamese fs) img = (False, sc)"
      by (cases "siamese_check_liveness (fs_siamese fs) img") (simp add: check_liveness_def)
    with on show "verify_face_with_liveness fs img enc = (False, 0, False)"
      by (simp add: verify_face_with_liveness_def siamese_verify_face_with_liveness_def)
  qed
  have "\<And>s acc. identify_step fs img s acc = acc"
    by (simp add: identify_step_def v split: option.splits)
  then have "fold (identify_step fs img) (enrolled_students db) (None, 0) = (None, 0)"
    by (intro fold_fixed) simp
  then show ?thesis
    by (simp add: identify_student_from_face_def)
qed

lemma ex_identify_flat:
  "identify_student_from_face (Some ex_face_service) ex_image_flat ex_db = None"
proof -
  have "\<not> fst (check_liveness ex_face_service ex_image_flat)"
    by (simp add: face_defs ex_services ex_image_flat_def Let_def)
  then show ?thesis
    by (intro identify_rejects_not_live) (simp_all add: ex_face_service_def)
qed

text \<open>
  Claim C2 does not hold of the code.  The flat image matches Alice's stored encoding at
  0.9, above the threshold 0.6, and fails the liveness check.  With the token read,
  \<open>mark_attendance_verified\<close> answers case B and records nothing, because
  \<open>verify_face_with_liveness\<close> reports no match once the image is not live.  Without a
  token, \<open>_handle_face_only_attendance\<close> never checks liveness: the same image identifies
  Alice and a pending row is written for her.  Only the endpoint
  \<open>identify_student_from_face\<close> turns the image away.
\<close>

theorem liveness_failure_on_both_paths:
  "verify_face ex_face_service ex_image_flat ''encA'' 0.5 = (True, 0.9) \<and>
   check_liveness ex_face_service ex_image_flat = (False, 0) \<and>
   verify_face_with_liveness ex_face_service ex_image_flat ''encA'' = (False, 0, False) \<and>
   mark_attendance_verified (Some ex_face_service) ex_image_flat ''2022001'' (ex_at 8 30) False ex_db
     = (case_b_response, ex_db) \<and>
   fst (handle_face_only_attendance ex_service ex_image_flat (ex_at 8 30) False ex_db)
     = success_response ex_alice ''Pending'' ''face_only'' 0.9
         ''Student identified by face. Attendance pending verification.'' \<and>
   map ar_student_register_number
     (db_attendance (snd (handle_face_only_attendance ex_service ex_image_flat (ex_at 8 30) False ex_db)))
     = [''2022001''] \<and>
   identify_student_from_face (Some ex_face_service) ex_image_flat ex_db = None"
proof -
  have v: "verify_face ex_face_service ex_image_flat ''encA'' 0.5 = (True, 0.9)"
    by (simp add: face_defs ex_services ex_image_flat_def Let_def)
  have l: "check_liveness ex_face_service ex_image_flat = (False, 0)"
    by (simp add: face_defs ex_services ex_image_flat_def Let_def)
  have w: "verify_face_with_liveness ex_face_service ex_image_flat ''encA'' = (False, 0, False)"
    by (simp add: face_defs ex_services ex_image_flat_def Let_def)
  have m: "mark_attendance_verified (Some ex_face_service) ex_image_flat ''2022001'' (ex_at 8 30)
             False ex_db = (case_b_response, ex_db)"
    by (simp add: mark_attendance_verified_def verify_or_register_face_def w
        find_active_student_def existing_attendance_def truthy_def ex_db_def ex_people)
  have f: "find_matching_student ex_face_service ex_image_flat ex_db = Some (ex_alice, 0.9)"
    by (simp add: find_matching_student_def enrolled_students_def fm_step_def face_defs
        ex_db_def ex_people ex_services ex_image_flat_def Let_def)
  have e: "existing_attendance ex_db (st_register_number ex_alice) (dt_date (ck_now (ex_at 8 30)))
             = None"
    by (simp add: existing_attendance_def ex_db_def)
  have h: "handle_face_only_attendance ex_service ex_image_flat (ex_at 8 30) False ex_db
        = (success_response ex_alice ''Pending'' ''face_only'' 0.9
             ''Student identified by face. Attendance pending verification.'',
           add_attendance (new_attendance ex_db (ex_at 8 30) (st_register_number ex_alice)
             ''Pending'' ''face_only'' 0.9 False ''pending'') ex_db)"
    using f e
    by (simp add: handle_face_only_attendance_def ex_service_def Let_def mark_notified_def)
  have r: "map ar_student_register_number
             (db_attendance (add_attendance (new_attendance ex_db (ex_at 8 30)
                (st_register_number ex_alice) ''Pending'' ''face_only'' 0.9 False ''pending'') ex_db))
           = [''2022001'']"
    by (simp add: add_attendance_def new_attendance_def ex_db_def ex_alice_def)
  from v l w m h r ex_identify_flat show ?thesis by simp
qed

section \<open>The forgotten card\<close>

text \<open>
  Claim C4 as stated fails in \<open>_handle_forgot_id_attendance\<close>: Erin types her register
  number, the capture resembles her stored encoding at 0.3 only, and the attempt is
  refused with an error; no pending row is written.
\<close>

theorem forgot_id_mismatch_refused_counterexample:
  "find_active_student ex_db ''2022005'' = Some ex_erin \<and>
   verify_stored_face ex_face_service ex_image_live ex_erin = (False, 0.3) \<and>
   handle_forgot_id_attendance ex_service ex_image_live ''2022005'' (ex_at 8 30) False ex_db
     = (error_response ''Face verification failed. Identity could not be confirmed.'', ex_db)"
proof -
  have s: "find_active_student ex_db ''2022005'' = Some ex_erin"
    by (simp add: find_active_student_def ex_db_def ex_people)
  have v: "verify_stored_face ex_face_service ex_image_live ex_erin = (False, 0.3)"
    by (simp add: face_defs ex_services ex_image_live_def ex_erin_def Let_def)
  have e: "existing_attendance ex_db (st_register_number ex_erin) (dt_date (ck_now (ex_at 8 30)))
             = None"
    by (simp add: existing_attendance_def ex_db_def)
  from s v e show ?thesis
    by (simp add: handle_forgot_id_attendance_def ex_service_def)
qed

text \<open>
  Claim C4, amended.  The endpoint \<open>create_manual_pending_verification\<close> does not verify
  the face itself; it takes the register number that face identification gave from the
  request.  For every student on file it answers \<open>pending_verification\<close> and appends one
  attendance row with status \<open>Pending\<close> and review state \<open>pending\<close> and one pending
  verification that points to it, whether the two register numbers agree or not; when
  they differ, the notes carry a warning that names both.  In
  \<open>_handle_forgot_id_attendance\<close>, for an active student without a row for today, the
  outcome is \<open>Pending\<close> when the face verifies against the stored encoding, and an error
  with the database unchanged when it does not.
\<close>

theorem forgot_id_outcomes:
  "(find_student db manual = Some s \<longrightarrow>
      fst (create_manual_pending_verification u manual identified ck db) =
        Inr (pending_verification_response s
               (manual_verification_notes (us_username u) manual identified)) \<and>
      db_attendance (snd (create_manual_pending_verification u manual identified ck db)) =
        db_attendance db @
          [new_attendance db ck manual ''Pending'' ''forgot_id_manual'' 0 False ''pending''] \<and>
      (\<exists>p. db_pending (snd (create_manual_pending_verification u manual identified ck db)) =
              db_pending db @ [p] \<and>
            pv_status p = ''pending'' \<and>
            pv_attendance_record_id p = next_id (map ar_id (db_attendance db)) \<and>
            pv_review_notes p = Some (manual_verification_notes (us_username u) manual identified)))
   \<and> (identified \<noteq> [] \<and> identified \<noteq> manual \<longrightarrow>
        manual_verification_notes w manual identified =
          ''Manual Case C: Forgot ID card. Entered by '' @ w @ ''.'' @
          '' WARNING: Face identified as '' @ identified @
          '' but manually entered '' @ manual @ ''.'')
   \<and> (find_active_student db reg = Some s \<and>
       existing_attendance db (st_register_number s) (dt_date (ck_now ck)) = None \<longrightarrow>
        (fst (verify_stored_face (as_face_service svc) img s) \<longrightarrow>
           rs_attendance_status (fst (handle_forgot_id_attendance svc img reg ck notified db))
             = Some ''Pending'' \<and>
           map ar_status (db_attendance (snd (handle_forgot_id_attendance svc img reg ck notified db)))
             = map ar_status (db_attendance db) @ [''Pending'']) \<and>
        (\<not> fst (verify_stored_face (as_face_service svc) img s) \<longrightarrow>
           handle_forgot_id_attendance svc img reg ck notified db =
             (error_response ''Face verification failed. Identity could not be confirmed.'', db)))"
proof (intro conjI impI)
  assume s: "find_student db manual = Some s"
  then show "fst (create_manual_pending_verification u manual identified ck db) =
        Inr (pending_verification_response s
               (manual_verification_notes (us_username u) manual identified))"
    by (simp add: create_manual_pending_verification_def Let_def)
  from s show "db_attendance (snd (create_manual_pending_verification u manual identified ck db)) =
        db_attendance db @
          [new_attendance db ck manual ''Pending'' ''forgot_id_manual'' 0 False ''pending'']"
    by (simp add: create_manual_pending_verification_def Let_def add_attendance_def)
  from s show "\<exists>p. db_pending (snd (create_manual_pending_verification u manual identified ck db)) =
              db_pending db @ [p] \<and>
            pv_status p = ''pending'' \<and>
            pv_attendance_record_id p = next_id (map ar_id (db_attendance db)) \<and>
            pv_review_notes p = Some (manual_verification_notes (us_username u) manual identified)"
    by (simp add: create_manual_pending_verification_def Let_def add_attendance_def
        new_attendance_def)
next
  assume "identified \<noteq> [] \<and> identified \<noteq> manual"
  then show "manual_verification_notes w manual identified =
          ''Manual Case C: Forgot ID card. Entered by '' @ w @ ''.'' @
          '' WARNING: Face identified as '' @ identified @
          '' but manually entered '' @ manual @ ''.''"
    by (simp add: manual_verification_notes_def)
next
  assume a: "find_active_student db reg = Some s \<and>
       existing_attendance db (st_register_number s) (dt_date (ck_now ck)) = None"
    and m: "fst (verify_stored_face (as_face_service svc) img s)"
  from m obtain c where v: "verify_stored_face (as_face_service svc) img s = (True, c)"
    by (cases "verify_stored_face (as_face_service svc) img s") auto
  from a v show "rs_attendance_status (fst (handle_forgot_id_attendance svc img reg ck notified db))
             = Some ''Pending''"
    by (simp add: handle_forgot_id_attendance_def Let_def success_response_def)
  from a v show
    "map ar_status (db_attendance (snd (handle_forgot_id_attendance svc img reg ck notified db)))
             = map ar_status (db_attendance db) @ [''Pending'']"
    by (simp add: handle_forgot_id_attendance_def Let_def mark_notified_statuses
        add_attendance_simps new_attendance_status)
next
  assume a: "find_active_student db reg = Some s \<and>
       existing_attendance db (st_register_number s) (dt_date (ck_now ck)) = None"
    and m: "\<not> fst (verify_stored_face (as_face_service svc) img s)"
  from m obtain c where v: "verify_stored_face (as_face_service svc) img s = (False, c)"
    by (cases "verify_stored_face (as_face_service svc) img s") auto
  from a v show "handle_forgot_id_attendance svc img reg ck notified db =
             (error_response ''Face verification failed. Identity could not be confirmed.'', db)"
    by (simp add: handle_forgot_id_attendance_def Let_def)
qed

text \<open>
  The operator enters Bob's number while the face was identified as Alice: pending, with
  the warning.  Through the service, Alice with her own number is pending and Erin, whose
  face does not verify, is refused.
\<close>

theorem forgot_id_outcomes_witness:
  "find_student ex_db ''2022002'' = Some ex_bob \<and>
   fst (create_manual_pending_verification ex_operator ''2022002'' ''2022001'' (ex_at 9 0) ex_db)
     = Inr (pending_verification_response ex_bob
         ''Manual Case C: Forgot ID card. Entered by op1. WARNING: Face identified as 2022001 but manually entered 2022002.'') \<and>
   map ar_status (db_attendance (snd (create_manual_pending_verification ex_operator ''2022002''
     ''2022001'' (ex_at 9 0) ex_db))) = [''Pending''] \<and>
   find_active_student ex_db ''2022001'' = Some ex_alice \<and>
   fst (verify_stored_face (as_face_service ex_service) ex_image_live ex_alice) \<and>
   rs_attendance_status (fst (handle_forgot_id_attendance ex_service ex_image_live ''2022001''
     (ex_at 9 0) False ex_db)) = Some ''Pending'' \<and>
   find_active_student ex_db ''2022005'' = Some ex_erin \<and>
   \<not> fst (verify_stored_face (as_face_service ex_service) ex_image_live ex_erin) \<and>
   handle_forgot_id_attendance ex_service ex_image_live ''2022005'' (ex_at 9 0) False ex_db
     = (error_response ''Face verification failed. Identity could not be confirmed.'', ex_db)"
proof -
  have b: "find_student ex_db ''2022002'' = Some ex_bob"
    by (simp add: find_student_def ex_db_def ex_people)
  have n: "''2022001'' \<noteq> [] \<and> ''2022001'' \<noteq> ''2022002''" by simp
  have u: "us_username ex_operator = ''op1''" by (simp add: ex_operator_def)
  have a: "find_active_student ex_db ''2022001'' = Some ex_alice \<and>
           existing_attendance ex_db (st_register_number ex_alice) (dt_date (ck_now (ex_at 9 0))) = None"
    by (simp add: find_active_student_def existing_attendance_def ex_db_def ex_people)
  have e: "find_active_student ex_db ''2022005'' = Some ex_erin \<and>
           existing_attendance ex_db (st_register_number ex_erin) (dt_date (ck_now (ex_at 9 0))) = None"
    by (simp add: find_active_student_def existing_attendance_def ex_db_def ex_people)
  have va: "fst (verify_stored_face (as_face_service ex_service) ex_image_live ex_alice)"
    by (simp add: face_defs ex_services ex_image_live_def ex_alice_def Let_def)
  have ve: "\<not> fst (verify_stored_face (as_face_service ex_service) ex_image_live ex_erin)"
    by (simp add: face_defs ex_services ex_image_live_def ex_erin_def Let_def)
  have d: "db_attendance ex_db = []" by (simp add: ex_db_def)
  from forgot_id_outcomes [where db = ex_db and manual = "''2022002''" and s = ex_bob
      and u = ex_operator and identified = "''2022001''" and ck = "ex_at 9 0" and w = "''op1''"]
    b n u d
  have p1: "fst (create_manual_pending_verification ex_operator ''2022002'' ''2022001'' (ex_at 9 0) ex_db)
     = Inr (pending_verification_response ex_bob
         ''Manual Case C: Forgot ID card. Entered by op1. WARNING: Face identified as 2022001 but manually entered 2022002.'')"
    and p2: "map ar_status (db_attendance (snd (create_manual_pending_verification ex_operator
      ''2022002'' ''2022001'' (ex_at 9 0) ex_db))) = [''Pending'']"
    by (simp_all add: new_attendance_status)
  from forgot_id_outcomes [where db = ex_db and reg = "''2022001''" and s = ex_alice
      and svc = ex_service and img = ex_image_live and ck = "ex_at 9 0" and notified = False]
    a va
  have p3: "rs_attendance_status (fst (handle_forgot_id_attendance ex_service ex_image_live
     ''2022001'' (ex_at 9 0) False ex_db)) = Some ''Pending''"
    by simp
  from forgot_id_outcomes [where db = ex_db and reg = "''2022005''" and s = ex_erin
      and svc = ex_service and img = ex_image_live and ck = "ex_at 9 0" and notified = False]
    e ve
  have p4: "handle_forgot_id_attendance ex_service ex_image_live ''2022005'' (ex_at 9 0) False ex_db
     = (error_response ''Face verification failed. Identity could not be confirmed.'', ex_db)"
    by simp
  from b a e va ve p1 p2 p3 p4 show ?thesis by simp
qed

end
